theory Spec2Isabelle
  imports Complex_Main "HOL-Library.Word"
begin

unbundle bit_operations_syntax

section \<open>Output streams and outcomes\<close>

text \<open>
  Every writer of \<^verbatim>\<open>dgt_vtk.cpp\<close> appends to a \<^verbatim>\<open>std::stringstream\<close> that it
  receives by reference. The stream is modelled by the text written to it so far; a
  writer takes the stream and returns it extended. Integers are inserted with the
  stream's default (decimal) formatting, which is also what \<^verbatim>\<open>std::to_string\<close> prints.
\<close>

type_synonym stream = string

type_synonym byte = "8 word"

definition digit_chars :: string where
  "digit_chars = ''0123456789''"

function decimal :: "nat \<Rightarrow> string" where
  "decimal n =
     (if n < 10 then [digit_chars ! n]
      else decimal (n div 10) @ [digit_chars ! (n mod 10)])"
  by pat_completeness auto
termination
  by (relation "measure id") auto

declare decimal.simps [simp del]

definition to_string :: "int \<Rightarrow> string" where
  "to_string i = (if i < 0 then ''-'' @ decimal (nat (- i)) else decimal (nat i))"

text \<open>
  The C++ \<^verbatim>\<open>int\<close> has 32 bits. Its values are modelled by integers; an addition or a
  multiplication of two \<^verbatim>\<open>int\<close>s, and the narrowing of a \<^verbatim>\<open>size_t\<close> to \<^verbatim>\<open>int\<close>, is the
  operation on the integers followed by the two's complement wrap-around to 32 bits.
  (Signed overflow is undefined in C++; the wrap-around is what the hardware computes.)
  The increment of a loop counter \<open>i\<close> under the test \<open>i < bound\<close> cannot leave the
  range, and is written without the wrap-around.
\<close>

definition INT_MAX :: int where
  "INT_MAX = 2147483647"

definition INT_MIN :: int where
  "INT_MIN = - 2147483648"

definition wrap :: "int \<Rightarrow> int" where
  "wrap x = (x - INT_MIN) mod 4294967296 + INT_MIN"

definition fits_int :: "int \<Rightarrow> bool" where
  "fits_int x = (INT_MIN \<le> x \<and> x \<le> INT_MAX)"

text \<open>
  A writer that can fail returns, with the stream as it stands when it stops, how it
  stopped: normally, by \<^verbatim>\<open>throw std::runtime_error(msg)\<close>, or at a step whose behaviour
  the source leaves undefined (a read outside a fixed table, a remainder by zero, an
  array of negative extent).
\<close>

datatype status = Done | Runtime_error string | Undefined_behaviour

type_synonym writer = "stream \<Rightarrow> status \<times> stream"

definition emit :: "(stream \<Rightarrow> stream) \<Rightarrow> writer" where
  "emit f stream = (Done, f stream)"

definition and_then :: "writer \<Rightarrow> writer \<Rightarrow> writer" where
  "and_then first second stream =
     (case first stream of
        (Done, stream') \<Rightarrow> second stream'
      | (failure, stream') \<Rightarrow> (failure, stream'))"

fun in_sequence :: "writer list \<Rightarrow> writer" where
  "in_sequence [] = emit (\<lambda>stream. stream)"
| "in_sequence (w # ws) = and_then w (in_sequence ws)"

section \<open>Geometry and mesh data read by the writers\<close>

text \<open>
  The classes below are declared in headers that are not part of this file
  (\<^verbatim>\<open>dgt_mesh.hpp\<close>, \<^verbatim>\<open>dgt_grid.hpp\<close>, \<^verbatim>\<open>dgt_spatial.hpp\<close> and the p3a library); each
  is modelled by the accessors the writers call on it. Doubles and floats are kept
  abstract (type variables \<open>'d\<close> and \<open>'f\<close>): their arithmetic is a parameter of the model.
\<close>

datatype axis = X | Y | Z

definition DIMS :: nat where
  "DIMS = 3"

datatype 'a vector3 = vector3 (vec_x: 'a) (vec_y: 'a) (vec_z: 'a)

fun vec_nth :: "'a vector3 \<Rightarrow> axis \<Rightarrow> 'a" where
  "vec_nth v X = vec_x v"
| "vec_nth v Y = vec_y v"
| "vec_nth v Z = vec_z v"

fun axis_index :: "axis \<Rightarrow> nat" where
  "axis_index X = 0"
| "axis_index Y = 1"
| "axis_index Z = 2"

text \<open>The product \<^verbatim>\<open>a * v\<close> of an \<^verbatim>\<open>int\<close> and a p3a vector of \<^verbatim>\<open>int\<close>s.\<close>

definition scale :: "int \<Rightarrow> int vector3 \<Rightarrow> int vector3" where
  "scale a v = vector3 (wrap (a * vec_x v)) (wrap (a * vec_y v)) (wrap (a * vec_z v))"

record grid3 =
  extents :: "int vector3"

record 'd box3 =
  lower :: "'d vector3"
  upper :: "'d vector3"

record Point =
  depth :: int
  ijk :: "int vector3"

record Node =
  pt :: Point

record 'd Block =
  basis_p :: int
  cell_grid :: grid3
  block_domain :: "'d box3"
  block_dx :: "'d vector3"
  block_node :: Node
  block_id :: int
  block_owner :: int

text \<open>
  Modelled from the spec: \<^verbatim>\<open>max_p\<close> is declared in \<^verbatim>\<open>dgt_basis.hpp\<close>, which is not part
  of this file. The offset table of \<^verbatim>\<open>write_coordinate\<close> is declared with
  \<open>max_p + 1\<close> rows and columns and initialised with three rows of three, and the
  specification has it indexed by the degrees 0, 1 and 2.
\<close>

definition max_p :: int where
  "max_p = 2"

section \<open>Arrays\<close>

text \<open>
  A \<^verbatim>\<open>VizView<T>\<close> is a two-dimensional Kokkos dual view: a host copy and a device copy
  of the same extents, and a mark telling that the device copy is the newer one. Each
  copy is modelled by its list of rows. What the encoder needs to know of the element
  type \<^verbatim>\<open>T\<close> is its size, the bytes of a value in memory and the value a fresh array is
  filled with.
\<close>

record 'a ctype =
  sizeof :: nat
  object_bytes :: "'a \<Rightarrow> byte list"
  zero_value :: 'a

definition le_bytes :: "nat \<Rightarrow> nat \<Rightarrow> byte list" where
  "le_bytes count n = map (\<lambda>k. word_of_nat (n div 256 ^ k mod 256)) [0 ..< count]"

definition u64_bytes :: "64 word \<Rightarrow> byte list" where
  "u64_bytes w = le_bytes 8 (unat w)"

definition int32_t :: "int ctype" where
  "int32_t =
     \<lparr>sizeof = 4, object_bytes = (\<lambda>i. le_bytes 4 (unat (word_of_int i :: 32 word))),
      zero_value = 0\<rparr>"

definition int8_t :: "int ctype" where
  "int8_t =
     \<lparr>sizeof = 1, object_bytes = (\<lambda>i. le_bytes 1 (unat (word_of_int i :: 8 word))),
      zero_value = 0\<rparr>"

datatype layout = LayoutLeft | LayoutRight

record 'a VizView =
  extent_1 :: nat
  h_view :: "'a list list"
  d_view :: "'a list list"
  modified_device :: bool

definition resize :: "'a ctype \<Rightarrow> nat \<Rightarrow> nat \<Rightarrow> 'a VizView" where
  "resize T n0 n1 =
     \<lparr>extent_1 = n1,
      h_view = replicate n0 (replicate n1 (zero_value T)),
      d_view = replicate n0 (replicate n1 (zero_value T)),
      modified_device = False\<rparr>"

definition sync_host :: "'a VizView \<Rightarrow> 'a VizView" where
  "sync_host dual =
     (if modified_device dual then dual\<lparr>h_view := d_view dual, modified_device := False\<rparr>
      else dual)"

text \<open>The assignment \<^verbatim>\<open>dual.h_view(i, j) = v\<close>, for an index inside the extents.\<close>

definition store :: "'a VizView \<Rightarrow> nat \<Rightarrow> nat \<Rightarrow> 'a \<Rightarrow> 'a VizView" where
  "store dual i j v = dual\<lparr>h_view := (h_view dual)[i := (h_view dual ! i)[j := v]]\<rparr>"

fun in_memory :: "layout \<Rightarrow> 'a list list \<Rightarrow> 'a list" where
  "in_memory LayoutRight rows = concat rows"
| "in_memory LayoutLeft rows = concat (transpose rows)"

definition view_size :: "'a list list \<Rightarrow> nat" where
  "view_size rows = length (concat rows)"

section \<open>Base64\<close>

text \<open>
  Modelled from the spec: \<^verbatim>\<open>base64::encode\<close> is declared in \<^verbatim>\<open>dgt_file.hpp\<close>, which is
  not part of this file. The specification says that header and payload are
  base64-encoded; this is the standard encoding (alphabet \<^verbatim>\<open>A-Z a-z 0-9 + /\<close>, three
  bytes to four characters, padded with \<^verbatim>\<open>=\<close>), with the decoder that reads it back.
\<close>

definition base64_chars :: string where
  "base64_chars = ''ABCDEFGHIJKLMNOPQRSTUVWXYZabcdefghijklmnopqrstuvwxyz0123456789+/''"

definition base64_char :: "nat \<Rightarrow> char" where
  "base64_char n = base64_chars ! n"

fun encode_octets :: "nat list \<Rightarrow> string" where
  "encode_octets [] = []"
| "encode_octets [a] =
     [base64_char (a div 4), base64_char (a mod 4 * 16), CHR ''='', CHR ''='']"
| "encode_octets [a, b] =
     [base64_char (a div 4), base64_char (a mod 4 * 16 + b div 16),
      base64_char (b mod 16 * 4), CHR ''='']"
| "encode_octets (a # b # c # rest) =
     [base64_char (a div 4), base64_char (a mod 4 * 16 + b div 16),
      base64_char (b mod 16 * 4 + c div 64), base64_char (c mod 64)] @ encode_octets rest"

definition base64_encode :: "byte list \<Rightarrow> string" where
  "base64_encode bytes = encode_octets (map unat bytes)"

fun index_of :: "'a \<Rightarrow> 'a list \<Rightarrow> nat option" where
  "index_of c [] = None"
| "index_of c (d # ds) = (if c = d then Some 0 else map_option Suc (index_of c ds))"

definition sextet :: "char \<Rightarrow> nat option" where
  "sextet c = index_of c base64_chars"

fun decode_sextets :: "string \<Rightarrow> nat list option" where
  "decode_sextets [] = Some []"
| "decode_sextets (c1 # c2 # c3 # c4 # rest) =
     (case (sextet c1, sextet c2) of
        (Some p, Some q) \<Rightarrow>
          if c3 = CHR ''='' then
            (if c4 = CHR ''='' \<and> rest = [] then Some [p * 4 + q div 16] else None)
          else
            (case sextet c3 of
               None \<Rightarrow> None
             | Some r \<Rightarrow>
                 if c4 = CHR ''='' then
                   (if rest = [] then Some [p * 4 + q div 16, q mod 16 * 16 + r div 4]
                    else None)
                 else
                   (case (sextet c4, decode_sextets rest) of
                      (Some t, Some octets) \<Rightarrow>
                        Some ([p * 4 + q div 16, q mod 16 * 16 + r div 4, r mod 4 * 64 + t]
                               @ octets)
                    | _ \<Rightarrow> None))
      | _ \<Rightarrow> None)"
| "decode_sextets _ = None"

definition base64_decode :: "string \<Rightarrow> byte list option" where
  "base64_decode text = map_option (map word_of_nat) (decode_sextets text)"

section \<open>The platform\<close>

text \<open>
  What the writers use and this file does not define: zlib (\<^verbatim>\<open>compressBound\<close> and
  \<^verbatim>\<open>compress2\<close>, which gets the capacity of the destination, the source bytes and the
  level, and returns its status with the bytes it wrote), the memory layout of a
  \<^verbatim>\<open>VizView\<close>, double and float arithmetic with their conversions, byte representations
  and printing (\<^verbatim>\<open>show_double\<close> is the insertion of a double under
  \<^verbatim>\<open>std::scientific\<close> and \<^verbatim>\<open>std::setprecision(12)\<close>), the geometry function
  \<^verbatim>\<open>get_block_domain\<close>, and the tree with its accessors and \<^verbatim>\<open>collect_leaves\<close>.
  A literal such as \<^verbatim>\<open>2.\<close> is the double of the integer 2. \<^verbatim>\<open>uLong\<close> has 64 bits.
  \<^verbatim>\<open>write_tree\<close> receives the tree by a reference that is not \<^verbatim>\<open>const\<close> and passes it so
  to \<^verbatim>\<open>collect_leaves\<close>, which may therefore change it: a traversal returns the
  leaves together with the tree as it leaves it.
\<close>

record ('d, 'f, 't) platform =
  compressBound :: "nat \<Rightarrow> nat"
  compress2 :: "nat \<Rightarrow> byte list \<Rightarrow> int \<Rightarrow> int \<times> byte list"
  view_layout :: layout
  double_of_int :: "int \<Rightarrow> 'd"
  double_neg :: "'d \<Rightarrow> 'd"
  double_add :: "'d \<Rightarrow> 'd \<Rightarrow> 'd"
  double_sub :: "'d \<Rightarrow> 'd \<Rightarrow> 'd"
  double_mul :: "'d \<Rightarrow> 'd \<Rightarrow> 'd"
  double_div :: "'d \<Rightarrow> 'd \<Rightarrow> 'd"
  float_of_double :: "'d \<Rightarrow> 'f"
  double_t :: "'d ctype"
  float_t :: "'f ctype"
  show_double :: "'d \<Rightarrow> string"
  get_block_domain :: "Point \<Rightarrow> Point \<Rightarrow> 'd box3 \<Rightarrow> 'd box3"
  collect_leaves :: "'t \<Rightarrow> Node list \<times> 't"
  tree_dim :: "'t \<Rightarrow> int"
  tree_base :: "'t \<Rightarrow> Point"

definition Z_OK :: int where
  "Z_OK = 0"

definition Z_BEST_SPEED :: int where
  "Z_BEST_SPEED = 1"

text \<open>
  Modelled from the spec: \<^verbatim>\<open>ipow\<close> is declared elsewhere in the repository; the
  specification has the corners per cell as \<open>2\<^sup>d\<close>.
\<close>

definition ipow :: "int \<Rightarrow> int \<Rightarrow> int" where
  "ipow a b = a ^ nat b"

text \<open>
  Modelled from the spec: \<^verbatim>\<open>write_stream\<close> is declared in \<^verbatim>\<open>dgt_file.hpp\<close>; it stores
  the text of the stream under the path. The file system is a map from paths to contents.
\<close>

definition write_stream :: "string \<Rightarrow> stream \<Rightarrow> (string \<rightharpoonup> string) \<Rightarrow> (string \<rightharpoonup> string)" where
  "write_stream file_path stream files = files(file_path \<mapsto> stream)"

text \<open>The p3a vector operations the writers use, on doubles.\<close>

definition plus_vec :: "('d, 'f, 't) platform \<Rightarrow> 'd vector3 \<Rightarrow> 'd vector3 \<Rightarrow> 'd vector3" where
  "plus_vec env a b =
     vector3 (double_add env (vec_x a) (vec_x b)) (double_add env (vec_y a) (vec_y b))
       (double_add env (vec_z a) (vec_z b))"

definition minus_vec :: "('d, 'f, 't) platform \<Rightarrow> 'd vector3 \<Rightarrow> 'd vector3 \<Rightarrow> 'd vector3" where
  "minus_vec env a b =
     vector3 (double_sub env (vec_x a) (vec_x b)) (double_sub env (vec_y a) (vec_y b))
       (double_sub env (vec_z a) (vec_z b))"

definition hadamard_product ::
  "('d, 'f, 't) platform \<Rightarrow> 'd vector3 \<Rightarrow> int vector3 \<Rightarrow> 'd vector3" where
  "hadamard_product env a b =
     vector3 (double_mul env (vec_x a) (double_of_int env (vec_x b)))
       (double_mul env (vec_y a) (double_of_int env (vec_y b)))
       (double_mul env (vec_z a) (double_of_int env (vec_z b)))"

definition box_extents :: "('d, 'f, 't) platform \<Rightarrow> 'd box3 \<Rightarrow> 'd vector3" where
  "box_extents env box = minus_vec env (upper box) (lower box)"

text \<open>A read \<^verbatim>\<open>table[i]\<close> of a fixed C array: outside the array there is no value.\<close>

definition at_index :: "'a list \<Rightarrow> int \<Rightarrow> 'a option" where
  "at_index table i = (if 0 \<le> i \<and> i < int (length table) then Some (table ! nat i) else None)"

text \<open>The remainder \<^verbatim>\<open>a % b\<close> of C++, which truncates towards zero; \<open>b\<close> is not zero.\<close>

definition rem :: "int \<Rightarrow> int \<Rightarrow> int" where
  "rem a b = sgn a * (\<bar>a\<bar> mod \<bar>b\<bar>)"

section \<open>The binary array encoder\<close>

definition host_bytes :: "('d, 'f, 't) platform \<Rightarrow> 'a ctype \<Rightarrow> 'a VizView \<Rightarrow> byte list" where
  "host_bytes env T dual =
     concat (map (object_bytes T) (in_memory (view_layout env) (h_view dual)))"

text \<open>
  \<^verbatim>\<open>write_data<T>\<close> (lines 142--164). The destination buffer has the capacity that
  \<^verbatim>\<open>compressBound\<close> gives; \<^verbatim>\<open>compress2\<close> sets \<^verbatim>\<open>dest_bytes\<close> to the number of bytes it
  wrote. The exception is thrown before anything is written to the stream. Running
  out of memory in \<^verbatim>\<open>new\<close> is not modelled.
\<close>

definition write_data ::
  "('d, 'f, 't) platform \<Rightarrow> 'a ctype \<Rightarrow> stream \<Rightarrow> 'a VizView \<Rightarrow> bool \<Rightarrow> status \<times> stream" where
  "write_data env T stream dual copy =
     (let dual = (if copy then sync_host dual else dual);
          uncompressed_bytes =
            (word_of_nat (sizeof T) * word_of_nat (view_size (h_view dual)) :: 64 word);
          source_bytes = unat uncompressed_bytes;
          dest_bytes = compressBound env source_bytes;
          (ret, compressed) =
            compress2 env dest_bytes (take source_bytes (host_bytes env T dual)) Z_BEST_SPEED
      in if ret \<noteq> Z_OK then (Runtime_error ''vtk - zlib error'', stream)
         else
           let dest_bytes = length compressed;
               encoded = base64_encode compressed;
               header = [1, uncompressed_bytes, uncompressed_bytes, word_of_nat dest_bytes];
               enc_header = base64_encode (concat (map u64_bytes header))
           in (Done, stream @ enc_header @ encoded @ ''\<newline>''))"

section \<open>The block grid writer\<close>

definition write_vtr_header :: "stream \<Rightarrow> stream" where
  \<open>write_vtr_header stream =
     stream @ ''<VTKFile type="RectilinearGrid" '' @ ''version="1.0" ''
       @ ''compressor="vtkZLibDataCompressor" '' @ ''header_type="UInt64">\<newline>''\<close>

definition write_vtr_rectilinear_start :: "stream \<Rightarrow> 'd Block \<Rightarrow> stream" where
  \<open>write_vtr_rectilinear_start stream block =
     (let p = basis_p block;
          cells = cell_grid block;
          n = scale (wrap (p + 1)) (extents cells)
      in stream @ ''<RectilinearGrid WholeExtent="''
           @ ''0 '' @ to_string (vec_x n) @ '' ''
           @ ''0 '' @ to_string (vec_y n) @ '' ''
           @ ''0 '' @ to_string (vec_z n) @ ''">\<newline>'')\<close>

definition write_fdata_start :: "stream \<Rightarrow> string \<Rightarrow> string \<Rightarrow> int \<Rightarrow> stream" where
  \<open>write_fdata_start stream type name ntuples =
     stream @ ''<DataArray '' @ ''type="'' @ type @ ''"'' @ '' Name="'' @ name @ ''"''
       @ '' NumberOfTuples="'' @ to_string ntuples @ ''"'' @ '' format="ascii"'' @ ''>\<newline>''\<close>

definition write_data_start :: "stream \<Rightarrow> string \<Rightarrow> string \<Rightarrow> int \<Rightarrow> stream" where
  \<open>write_data_start stream type name ncomps =
     stream @ ''<'' @ ''DataArray type="'' @ type @ ''" '' @ ''Name="'' @ name @ ''" ''
       @ ''NumberOfComponents="'' @ to_string ncomps @ ''" '' @ ''format="binary"''
       @ ''>\<newline>''\<close>

definition write_data_end :: "stream \<Rightarrow> stream" where
  \<open>write_data_end stream = stream @ ''</DataArray>\<newline>''\<close>

definition write_vtr_time :: "('d, 'f, 't) platform \<Rightarrow> stream \<Rightarrow> 'd \<Rightarrow> stream" where
  "write_vtr_time env stream time =
     write_data_end
       (write_fdata_start stream ''Float64'' ''TIME'' 1 @ show_double env time @ ''\<newline>'')"

definition write_vtr_step :: "stream \<Rightarrow> int \<Rightarrow> stream" where
  "write_vtr_step stream step =
     write_data_end (write_fdata_start stream ''Int32'' ''STEP'' 1 @ to_string step @ ''\<newline>'')"

definition write_vtr_block_depth :: "stream \<Rightarrow> 'd Block \<Rightarrow> stream" where
  "write_vtr_block_depth stream block =
     write_data_end
       (write_fdata_start stream ''Int32'' ''block_depth'' 1
          @ to_string (depth (pt (block_node block))) @ ''\<newline>'')"

definition write_vtr_block_ijk :: "stream \<Rightarrow> 'd Block \<Rightarrow> stream" where
  "write_vtr_block_ijk stream block =
     (let ijk' = ijk (pt (block_node block))
      in write_data_end
           (write_fdata_start stream ''Int32'' ''block_ijk'' (int DIMS)
              @ to_string (vec_x ijk') @ '' '' @ to_string (vec_y ijk') @ '' ''
              @ to_string (vec_z ijk') @ ''\<newline>''))"

definition write_vtr_block_id :: "stream \<Rightarrow> 'd Block \<Rightarrow> stream" where
  "write_vtr_block_id stream block =
     write_data_end
       (write_fdata_start stream ''Int32'' ''block_id'' 1
          @ to_string (block_id block) @ ''\<newline>'')"

definition write_vtr_block_owner :: "stream \<Rightarrow> 'd Block \<Rightarrow> stream" where
  "write_vtr_block_owner stream block =
     write_data_end
       (write_fdata_start stream ''Int32'' ''block_owner'' 1
          @ to_string (block_owner block) @ ''\<newline>'')"

definition write_vtr_field_data ::
  "('d, 'f, 't) platform \<Rightarrow> stream \<Rightarrow> 'd Block \<Rightarrow> 'd \<Rightarrow> int \<Rightarrow> stream" where
  "write_vtr_field_data env stream block time step =
     write_vtr_block_owner
       (write_vtr_block_id
         (write_vtr_block_ijk
           (write_vtr_block_depth
             (write_vtr_step
               (write_vtr_time env (stream @ ''<FieldData>\<newline>'') time) step) block) block)
         block) block
       @ ''</FieldData>\<newline>''"

definition write_piece_start :: "stream \<Rightarrow> 'd Block \<Rightarrow> stream" where
  \<open>write_piece_start stream block =
     (let p = basis_p block;
          cells = cell_grid block;
          n = scale (wrap (p + 1)) (extents cells)
      in stream @ ''<Piece Extent="''
           @ ''0 '' @ to_string (vec_x n) @ '' ''
           @ ''0 '' @ to_string (vec_y n) @ '' ''
           @ ''0 '' @ to_string (vec_z n) @ ''">\<newline>'')\<close>

fun axis_name :: "axis \<Rightarrow> string" where
  "axis_name X = ''x''"
| "axis_name Y = ''y''"
| "axis_name Z = ''z''"

text \<open>
  The table \<^verbatim>\<open>double const offset[max_p+1][max_p+1]\<close> with its initialiser; C++ fills
  the entries that the initialiser leaves out with zero.
\<close>

definition zero_filled :: "nat \<Rightarrow> 'a \<Rightarrow> 'a list \<Rightarrow> 'a list" where
  "zero_filled n z xs = xs @ replicate (n - length xs) z"

definition offset :: "('d, 'f, 't) platform \<Rightarrow> 'd list list" where
  "offset env =
     (let zero = double_of_int env 0; n = nat (max_p + 1)
      in zero_filled n (replicate n zero)
           (map (zero_filled n zero)
              [[double_of_int env 0, double_of_int env 0, double_of_int env 0],
               [double_of_int env 0, double_of_int env 0, double_of_int env 0],
               [double_of_int env 0,
                double_div env (double_neg env (double_of_int env 2)) (double_of_int env 9),
                double_div env (double_of_int env 2) (double_of_int env 9)]]))"

text \<open>
  The loop of \<^verbatim>\<open>write_coordinate\<close> over the points of the axis. It has no value where
  the remainder is by zero or \<^verbatim>\<open>offset[p][mod]\<close> is read outside the table.
\<close>

function coordinate_loop ::
  "('d, 'f, 't) platform \<Rightarrow> int \<Rightarrow> 'd \<Rightarrow> 'd \<Rightarrow> int \<Rightarrow> int \<Rightarrow> 'f VizView \<Rightarrow> 'f VizView option" where
  "coordinate_loop env p o' dx' i num_pts coord =
     (if i < num_pts then
        (if wrap (p + 1) = 0 then None
         else
           let mod' = rem i (wrap (p + 1))
           in case at_index (offset env) p of
                None \<Rightarrow> None
              | Some row \<Rightarrow>
                  (case at_index row mod' of
                     None \<Rightarrow> None
                   | Some off \<Rightarrow>
                       coordinate_loop env p o' dx' (i + 1) num_pts
                         (store coord (nat i) 0
                            (float_of_double env
                               (double_add env
                                  (double_add env o' (double_mul env (double_of_int env i) dx'))
                                  (double_mul env off dx'))))))
      else Some coord)"
  by pat_completeness auto
termination
  by (relation "measure (\<lambda>(env, p, o', dx', i, num_pts, coord). nat (num_pts - i))") auto

declare coordinate_loop.simps [simp del]

text \<open>
  \<^verbatim>\<open>write_coordinate\<close> (lines 166--186). The axis is one of \<^verbatim>\<open>X\<close>, \<^verbatim>\<open>Y\<close>, \<^verbatim>\<open>Z\<close>, the only
  values its caller passes. The array is filled before the opening tag is written. A
  negative number of points is no extent of an array.
\<close>

definition write_coordinate ::
  "('d, 'f, 't) platform \<Rightarrow> stream \<Rightarrow> 'd Block \<Rightarrow> axis \<Rightarrow> status \<times> stream" where
  "write_coordinate env stream block axis =
     (let p = basis_p block;
          num_pts = wrap (wrap (wrap (p + 1) * vec_nth (extents (cell_grid block)) axis) + 1);
          o' = vec_nth (lower (block_domain block)) axis;
          dx' = double_div env (vec_nth (block_dx block) axis) (double_of_int env (wrap (p + 1)))
      in if num_pts < 0 then (Undefined_behaviour, stream)
         else
           case coordinate_loop env p o' dx' 0 num_pts (resize (float_t env) (nat num_pts) 1) of
             None \<Rightarrow> (Undefined_behaviour, stream)
           | Some coord \<Rightarrow>
               in_sequence
                 [emit (\<lambda>stream. write_data_start stream ''Float32'' (axis_name axis) 1),
                  (\<lambda>stream. write_data env (float_t env) stream coord False),
                  emit write_data_end] stream)"

definition write_coordinates :: "('d, 'f, 't) platform \<Rightarrow> stream \<Rightarrow> 'd Block \<Rightarrow> status \<times> stream" where
  "write_coordinates env stream block =
     in_sequence
       [emit (\<lambda>stream. stream @ ''<Coordinates>\<newline>''),
        (\<lambda>stream. write_coordinate env stream block X),
        (\<lambda>stream. write_coordinate env stream block Y),
        (\<lambda>stream. write_coordinate env stream block Z),
        emit (\<lambda>stream. stream @ ''</Coordinates>\<newline>'')] stream"

definition write_vtr_start ::
  "('d, 'f, 't) platform \<Rightarrow> stream \<Rightarrow> 'd Block \<Rightarrow> 'd \<Rightarrow> int \<Rightarrow> status \<times> stream" where
  "write_vtr_start env stream block time step =
     in_sequence
       [emit write_vtr_header,
        emit (\<lambda>stream. write_vtr_rectilinear_start stream block),
        emit (\<lambda>stream. write_vtr_field_data env stream block time step),
        emit (\<lambda>stream. write_piece_start stream block),
        (\<lambda>stream. write_coordinates env stream block),
        emit (\<lambda>stream. stream @ ''<CellData>\<newline>'')] stream"

text \<open>
  \<^verbatim>\<open>write_field<T>\<close>, with the name \<^verbatim>\<open>vtk_type_name<T>()\<close> of its element type, and its
  three instantiations.
\<close>

definition write_field ::
  "('d, 'f, 't) platform \<Rightarrow> 'a ctype \<Rightarrow> string \<Rightarrow> stream \<Rightarrow> string \<Rightarrow> 'a VizView \<Rightarrow> status \<times> stream" where
  "write_field env T vtk_type_name stream name f =
     (let ncomps = wrap (int (extent_1 f))
      in in_sequence
           [emit (\<lambda>stream. write_data_start stream vtk_type_name name ncomps),
            (\<lambda>stream. write_data env T stream f True),
            emit write_data_end] stream)"

definition write_field_int ::
  "('d, 'f, 't) platform \<Rightarrow> stream \<Rightarrow> string \<Rightarrow> int VizView \<Rightarrow> status \<times> stream" where
  "write_field_int env = write_field env int32_t ''Int32''"

definition write_field_float ::
  "('d, 'f, 't) platform \<Rightarrow> stream \<Rightarrow> string \<Rightarrow> 'f VizView \<Rightarrow> status \<times> stream" where
  "write_field_float env = write_field env (float_t env) ''Float32''"

definition write_field_double ::
  "('d, 'f, 't) platform \<Rightarrow> stream \<Rightarrow> string \<Rightarrow> 'd VizView \<Rightarrow> status \<times> stream" where
  "write_field_double env = write_field env (double_t env) ''Float64''"

definition write_vtr_end :: "stream \<Rightarrow> stream" where
  \<open>write_vtr_end stream =
     stream @ ''</CellData>\<newline>'' @ ''</Piece>\<newline>'' @ ''</RectilinearGrid>\<newline>''
       @ ''</VTKFile>\<newline>''\<close>

section \<open>The manifest writer\<close>

definition write_vtm_header :: "stream \<Rightarrow> stream" where
  \<open>write_vtm_header stream =
     stream @ ''<VTKFile type="vtkMultiBlockDataSet" '' @ ''version="1.0">\<newline>''
       @ ''<vtkMultiBlockDataSet>\<newline>''\<close>

definition write_vtm_end :: "stream \<Rightarrow> stream" where
  \<open>write_vtm_end stream =
     stream @ ''</vtkMultiBlockDataSet>\<newline>'' @ ''</VTKFile>''\<close>

definition write_vtm_source_file :: "stream \<Rightarrow> int \<Rightarrow> string \<Rightarrow> stream" where
  \<open>write_vtm_source_file stream i file =
     stream @ ''<DataSet index="'' @ to_string i @ ''" ''
       @ ''file="'' @ file @ ''"/>\<newline>''\<close>

text \<open>The loop \<^verbatim>\<open>for (int i = 0; i < nblocks; ++i)\<close> of \<^verbatim>\<open>write_vtm\<close>.\<close>

function write_vtm_loop :: "string \<Rightarrow> int \<Rightarrow> int \<Rightarrow> stream \<Rightarrow> stream" where
  "write_vtm_loop prefix i nblocks stream =
     (if i < nblocks
      then write_vtm_loop prefix (i + 1) nblocks
             (write_vtm_source_file stream i (prefix @ to_string i @ ''.vtr''))
      else stream)"
  by pat_completeness auto
termination
  by (relation "measure (\<lambda>(prefix, i, nblocks, stream). nat (nblocks - i))") auto

declare write_vtm_loop.simps [simp del]

text \<open>\<^verbatim>\<open>write_vtm\<close> (lines 251--258).\<close>

definition write_vtm :: "stream \<Rightarrow> string \<Rightarrow> int \<Rightarrow> stream" where
  "write_vtm stream prefix nblocks =
     write_vtm_end (write_vtm_loop prefix 0 nblocks (write_vtm_header stream))"

section \<open>The tree geometry writer\<close>

definition write_vtu_header :: "stream \<Rightarrow> stream" where
  \<open>write_vtu_header out =
     out @ ''<VTKFile type="UnstructuredGrid" '' @ ''header_type="UInt64" ''
       @ ''compressor="vtkZLibDataCompressor">\<newline>''\<close>

definition vtk_types :: "int list" where
  "vtk_types = [1, 3, 9, 12]"

function types_loop :: "int \<Rightarrow> int \<Rightarrow> int \<Rightarrow> int VizView \<Rightarrow> int VizView" where
  "types_loop type i num types =
     (if i < num then types_loop type (i + 1) num (store types (nat i) 0 type) else types)"
  by pat_completeness auto
termination
  by (relation "measure (\<lambda>(type, i, num, types). nat (num - i))") auto

declare types_loop.simps [simp del]

definition write_tree_types ::
  "('d, 'f, 't) platform \<Rightarrow> stream \<Rightarrow> int \<Rightarrow> int \<Rightarrow> status \<times> stream" where
  "write_tree_types env stream dim' num =
     (case at_index vtk_types dim' of
        None \<Rightarrow> (Undefined_behaviour, stream)
      | Some type \<Rightarrow>
          if num < 0 then (Undefined_behaviour, stream)
          else
            let types = types_loop type 0 num (resize int8_t (nat num) 1)
            in in_sequence
                 [emit (\<lambda>stream. write_data_start stream ''Int8'' ''types'' 1),
                  (\<lambda>stream. write_data env int8_t stream types False),
                  emit write_data_end] stream)"

function offsets_loop :: "int \<Rightarrow> int \<Rightarrow> int \<Rightarrow> int \<Rightarrow> int VizView \<Rightarrow> int VizView" where
  "offsets_loop nents offset' i num offsets =
     (if i < num
      then offsets_loop nents (wrap (offset' + nents)) (i + 1) num
             (store offsets (nat i) 0 offset')
      else offsets)"
  by pat_completeness auto
termination
  by (relation "measure (\<lambda>(nents, offset', i, num, offsets). nat (num - i))") auto

declare offsets_loop.simps [simp del]

definition write_tree_offsets ::
  "('d, 'f, 't) platform \<Rightarrow> stream \<Rightarrow> int \<Rightarrow> int \<Rightarrow> status \<times> stream" where
  "write_tree_offsets env stream num nents =
     (if num < 0 then (Undefined_behaviour, stream)
      else
        let offsets = offsets_loop nents nents 0 num (resize int32_t (nat num) 1)
        in in_sequence
             [emit (\<lambda>stream. write_data_start stream ''Int32'' ''offsets'' 1),
              (\<lambda>stream. write_data env int32_t stream offsets False),
              emit write_data_end] stream)"

function connectivity_loop :: "int \<Rightarrow> int \<Rightarrow> int VizView \<Rightarrow> int VizView" where
  "connectivity_loop i npoints connectivity =
     (if i < npoints
      then connectivity_loop (i + 1) npoints (store connectivity (nat i) 0 i)
      else connectivity)"
  by pat_completeness auto
termination
  by (relation "measure (\<lambda>(i, npoints, connectivity). nat (npoints - i))") auto

declare connectivity_loop.simps [simp del]

definition write_tree_connectivity ::
  "('d, 'f, 't) platform \<Rightarrow> stream \<Rightarrow> int \<Rightarrow> status \<times> stream" where
  "write_tree_connectivity env stream npoints =
     (if npoints < 0 then (Undefined_behaviour, stream)
      else
        let connectivity = connectivity_loop 0 npoints (resize int32_t (nat npoints) 1)
        in in_sequence
             [emit (\<lambda>stream. write_data_start stream ''Int32'' ''connectivity'' 1),
              (\<lambda>stream. write_data env int32_t stream connectivity False),
              emit write_data_end] stream)"

definition vtk_corners :: "int vector3 list" where
  "vtk_corners =
     [vector3 0 0 0, vector3 1 0 0, vector3 1 1 0, vector3 0 1 0,
      vector3 0 0 1, vector3 1 0 1, vector3 1 1 1, vector3 0 1 1]"

text \<open>
  The loop \<^verbatim>\<open>for (int axis = 0; axis < DIMS; ++axis)\<close> that stores the components of a
  vector into row \<open>i\<close> of a view.
\<close>

definition axes :: "axis list" where
  "axes = [X, Y, Z]"

definition store_vector :: "'a VizView \<Rightarrow> nat \<Rightarrow> 'a vector3 \<Rightarrow> 'a VizView" where
  "store_vector dual i v = foldl (\<lambda>dual axis. store dual i (axis_index axis) (vec_nth v axis)) dual axes"

text \<open>
  The loops of \<^verbatim>\<open>write_tree_coords\<close>: over the corners of one leaf, and over the leaves.
  The row index \<open>idx\<close> runs through both. There is no value where \<^verbatim>\<open>vtk_corners[c]\<close> is
  read outside the table or row \<open>idx\<close> is outside the \<open>npoints\<close> rows of the view.
\<close>

function corners_loop ::
  "('d, 'f, 't) platform \<Rightarrow> 'd vector3 \<Rightarrow> 'd vector3 \<Rightarrow> int \<Rightarrow> int \<Rightarrow> int \<Rightarrow> int \<Rightarrow> 'd VizView
     \<Rightarrow> (int \<times> 'd VizView) option" where
  "corners_loop env o' dx' npoints c ncorners idx coords =
     (if c < ncorners then
        (case at_index vtk_corners c of
           None \<Rightarrow> None
         | Some corner \<Rightarrow>
             if idx < 0 \<or> npoints \<le> idx then None
             else
               let x = plus_vec env o' (hadamard_product env dx' corner)
               in corners_loop env o' dx' npoints (c + 1) ncorners (idx + 1)
                    (store_vector coords (nat idx) x))
      else Some (idx, coords))"
  by pat_completeness auto
termination
  by (relation "measure (\<lambda>(env, o', dx', npoints, c, ncorners, idx, coords). nat (ncorners - c))")
    auto

declare corners_loop.simps [simp del]

fun leaves_loop ::
  "('d, 'f, 't) platform \<Rightarrow> Point \<Rightarrow> 'd box3 \<Rightarrow> int \<Rightarrow> int \<Rightarrow> Node list \<Rightarrow> int \<Rightarrow> 'd VizView
     \<Rightarrow> (int \<times> 'd VizView) option" where
  "leaves_loop env base domain npoints ncorners [] idx coords = Some (idx, coords)"
| "leaves_loop env base domain npoints ncorners (leaf # leaves) idx coords =
     (let pt' = pt leaf;
          box = get_block_domain env base pt' domain;
          o' = lower box;
          dx' = box_extents env box
      in case corners_loop env o' dx' npoints 0 ncorners idx coords of
           None \<Rightarrow> None
         | Some (idx, coords) \<Rightarrow> leaves_loop env base domain npoints ncorners leaves idx coords)"

definition write_tree_coords ::
  "('d, 'f, 't) platform \<Rightarrow> stream \<Rightarrow> Point \<Rightarrow> Node list \<Rightarrow> 'd box3 \<Rightarrow> int \<Rightarrow> int
     \<Rightarrow> status \<times> stream" where
  "write_tree_coords env stream base leaves domain npoints ncorners =
     (if npoints < 0 then (Undefined_behaviour, stream)
      else
        case leaves_loop env base domain npoints ncorners leaves 0
               (resize (double_t env) (nat npoints) DIMS) of
          None \<Rightarrow> (Undefined_behaviour, stream)
        | Some (idx, coords) \<Rightarrow>
            in_sequence
              [emit (\<lambda>stream. write_data_start stream ''Float64'' ''coordinates'' (int DIMS)),
               (\<lambda>stream. write_data env (double_t env) stream coords False),
               emit write_data_end] stream)"

function depths_loop :: "Node list \<Rightarrow> int \<Rightarrow> int \<Rightarrow> int VizView \<Rightarrow> int VizView" where
  "depths_loop leaves i nleaves depths =
     (if i < nleaves
      then depths_loop leaves (i + 1) nleaves
             (store depths (nat i) 0 (depth (pt (leaves ! nat i))))
      else depths)"
  by pat_completeness auto
termination
  by (relation "measure (\<lambda>(leaves, i, nleaves, depths). nat (nleaves - i))") auto

declare depths_loop.simps [simp del]

definition write_leaf_depths ::
  "('d, 'f, 't) platform \<Rightarrow> stream \<Rightarrow> Node list \<Rightarrow> status \<times> stream" where
  "write_leaf_depths env stream leaves =
     (let nleaves = wrap (int (length leaves))
      in if nleaves < 0 then (Undefined_behaviour, stream)
         else
           let depths = depths_loop leaves 0 nleaves (resize int32_t (nat nleaves) 1)
           in in_sequence
                [emit (\<lambda>stream. write_data_start stream ''Int32'' ''depth'' 1),
                 (\<lambda>stream. write_data env int32_t stream depths False),
                 emit write_data_end] stream)"

function ijks_loop :: "Node list \<Rightarrow> int \<Rightarrow> int \<Rightarrow> int VizView \<Rightarrow> int VizView" where
  "ijks_loop leaves i nleaves ijks =
     (if i < nleaves
      then ijks_loop leaves (i + 1) nleaves
             (store_vector ijks (nat i) (ijk (pt (leaves ! nat i))))
      else ijks)"
  by pat_completeness auto
termination
  by (relation "measure (\<lambda>(leaves, i, nleaves, ijks). nat (nleaves - i))") auto

declare ijks_loop.simps [simp del]

definition write_leaf_ijks ::
  "('d, 'f, 't) platform \<Rightarrow> stream \<Rightarrow> Node list \<Rightarrow> status \<times> stream" where
  "write_leaf_ijks env stream leaves =
     (let nleaves = wrap (int (length leaves))
      in if nleaves < 0 then (Undefined_behaviour, stream)
         else
           let ijks = ijks_loop leaves 0 nleaves (resize int32_t (nat nleaves) DIMS)
           in in_sequence
                [emit (\<lambda>stream. write_data_start stream ''Int32'' ''ijk'' (int DIMS)),
                 (\<lambda>stream. write_data env int32_t stream ijks False),
                 emit write_data_end] stream)"

text \<open>
  \<^verbatim>\<open>write_tree\<close> (lines 373--406). The stream is local and starts empty; the file is
  written last, and only if no writer before it has thrown. The tree is read
  (\<^verbatim>\<open>tree.dim()\<close>, \<^verbatim>\<open>tree.base()\<close>) after \<^verbatim>\<open>collect_leaves\<close> has traversed it, and is
  returned as the traversal left it.
\<close>

definition write_tree ::
  "('d, 'f, 't) platform \<Rightarrow> string \<Rightarrow> 't \<Rightarrow> 'd box3 \<Rightarrow> (string \<rightharpoonup> string)
     \<Rightarrow> status \<times> (string \<rightharpoonup> string) \<times> 't" where
  \<open>write_tree env path tree domain files =
     (let (leaves, tree) = collect_leaves env tree;
          dim' = tree_dim env tree;
          nleaves = wrap (int (length leaves));
          ncorners = ipow 2 dim';
          npoints = wrap (nleaves * ncorners)
      in case
           in_sequence
             [emit write_vtu_header,
              emit (\<lambda>stream. stream @ ''<UnstructuredGrid>\<newline>''),
              emit (\<lambda>stream. stream @ ''<Piece NumberOfPoints="'' @ to_string npoints @ ''" ''),
              emit (\<lambda>stream. stream @ ''NumberOfCells="'' @ to_string nleaves @ ''">\<newline>''),
              emit (\<lambda>stream. stream @ ''<Cells>\<newline>''),
              (\<lambda>stream. write_tree_types env stream dim' nleaves),
              (\<lambda>stream. write_tree_offsets env stream nleaves ncorners),
              (\<lambda>stream. write_tree_connectivity env stream npoints),
              emit (\<lambda>stream. stream @ ''</Cells>\<newline>''),
              emit (\<lambda>stream. stream @ ''<Points>\<newline>''),
              (\<lambda>stream. write_tree_coords env stream (tree_base env tree) leaves domain npoints
                  ncorners),
              emit (\<lambda>stream. stream @ ''</Points>\<newline>''),
              emit (\<lambda>stream. stream @ ''<CellData>\<newline>''),
              (\<lambda>stream. write_leaf_depths env stream leaves),
              (\<lambda>stream. write_leaf_ijks env stream leaves),
              emit (\<lambda>stream. stream @ ''</CellData>\<newline>''),
              emit (\<lambda>stream. stream @ ''<PointData>\<newline>''),
              emit (\<lambda>stream. stream @ ''</PointData>\<newline>''),
              emit (\<lambda>stream. stream @ ''</Piece>\<newline>''),
              emit (\<lambda>stream. stream @ ''</UnstructuredGrid>\<newline>''),
              emit (\<lambda>stream. stream @ ''</VTKFile>\<newline>'')] []
         of (Done, stream) \<Rightarrow> (Done, write_stream (path @ ''.vtu'') stream files, tree)
          | (failure, stream) \<Rightarrow> (failure, files, tree))\<close>

section \<open>The output as the specification describes it\<close>

text \<open>
  The definitions of this section are not part of the program and call none of its
  writers: they give, in the words of the specification, the text that an export is
  expected to contain, and the theorems compare what the program writes to them.
\<close>

text \<open>
  The binary encoding of an array. The raw bytes are those of its entries in memory;
  zlib deflates them at the level of best speed, into a buffer of the size that
  \<^verbatim>\<open>compressBound\<close> gives for them. The encoding is the base64 of the 32-byte header
  of four little-endian 64-bit unsigned integers (1, the number of raw bytes twice, the
  number of compressed bytes), directly followed by the base64 of the compressed bytes
  and a newline. The array element encloses it in the tags that declare the type, the
  name and the number of components.
\<close>

definition array_bytes :: "('d, 'f, 't) platform \<Rightarrow> 'a ctype \<Rightarrow> 'a list list \<Rightarrow> byte list" where
  "array_bytes env T rows = concat (map (object_bytes T) (in_memory (view_layout env) rows))"

definition deflated :: "('d, 'f, 't) platform \<Rightarrow> byte list \<Rightarrow> byte list" where
  "deflated env raw = snd (compress2 env (compressBound env (length raw)) raw Z_BEST_SPEED)"

definition encoded :: "('d, 'f, 't) platform \<Rightarrow> byte list \<Rightarrow> string" where
  "encoded env raw =
     base64_encode
       (concat (map u64_bytes
          [1, word_of_nat (length raw), word_of_nat (length raw),
           word_of_nat (length (deflated env raw))]))
     @ base64_encode (deflated env raw) @ ''\<newline>''"

definition array_element ::
  "('d, 'f, 't) platform \<Rightarrow> 'a ctype \<Rightarrow> string \<Rightarrow> string \<Rightarrow> nat \<Rightarrow> 'a list list \<Rightarrow> string" where
  \<open>array_element env T type name ncomps rows =
     ''<DataArray type="'' @ type @ ''" Name="'' @ name @ ''" NumberOfComponents="''
       @ decimal ncomps @ ''" format="binary">\<newline>''
       @ encoded env (array_bytes env T rows)
       @ ''</DataArray>\<newline>''\<close>

text \<open>The extent \<^verbatim>\<open>0 (p+1)nx 0 (p+1)ny 0 (p+1)nz\<close> of the specification.\<close>

fun spaced :: "string list \<Rightarrow> string" where
  "spaced [] = []"
| "spaced [w] = w"
| "spaced (w # ws) = w @ '' '' @ spaced ws"

definition extent_text :: "int \<Rightarrow> int \<Rightarrow> int \<Rightarrow> int \<Rightarrow> string" where
  "extent_text p nx ny nz =
     spaced (map to_string [0, (p + 1) * nx, 0, (p + 1) * ny, 0, (p + 1) * nz])"

text \<open>
  The offset table of the specification: all zero for the degrees 0 and 1, and
  0, \<open>-2/9\<close>, \<open>2/9\<close> for the degree 2.
\<close>

definition offsetTable :: "('d, 'f, 't) platform \<Rightarrow> int \<Rightarrow> int \<Rightarrow> 'd" where
  "offsetTable env p k =
     (if p = 2 \<and> k = 1 then double_div env (double_neg env (double_of_int env 2)) (double_of_int env 9)
      else if p = 2 \<and> k = 2 then double_div env (double_of_int env 2) (double_of_int env 9)
      else double_of_int env 0)"

text \<open>
  Point \<open>i\<close> of an axis in double precision:
  \<open>domainLower + i * dx + offsetTable[p][i mod (p+1)] * dx\<close> with
  \<open>dx = blockSpacing / (p+1)\<close>.
\<close>

definition coordinate_point :: "('d, 'f, 't) platform \<Rightarrow> 'd Block \<Rightarrow> axis \<Rightarrow> int \<Rightarrow> 'd" where
  "coordinate_point env block axis i =
     (let p = basis_p block;
          spacing = double_div env (vec_nth (block_dx block) axis) (double_of_int env (p + 1))
      in double_add env
           (double_add env (vec_nth (lower (block_domain block)) axis)
              (double_mul env (double_of_int env i) spacing))
           (double_mul env (offsetTable env p (i mod (p + 1))) spacing))"

text \<open>
  The manifest that references the given files under the given indices, in the order
  of the list: one \<^verbatim>\<open>DataSet\<close> element for each.
\<close>

definition manifest_text :: "(nat \<times> string) list \<Rightarrow> string" where
  \<open>manifest_text refs =
     ''<VTKFile type="vtkMultiBlockDataSet" version="1.0">\<newline><vtkMultiBlockDataSet>\<newline>''
       @ concat (map (\<lambda>(i, file). ''<DataSet index="'' @ decimal i @ ''" file="'' @ file
                        @ ''"/>\<newline>'') refs)
       @ ''</vtkMultiBlockDataSet>\<newline></VTKFile>''\<close>

text \<open>
  A reader of one encoded array, as the output format has it: the first 44 characters
  are the base64 of the 32-byte header, four little-endian 64-bit integers (number of
  blocks, raw bytes of a block, raw bytes of the last block, compressed bytes); the
  characters up to the end of the line are the base64 of the payload, which inflates to
  the raw bytes.
\<close>

definition u64_of_bytes :: "byte list \<Rightarrow> 64 word" where
  "u64_of_bytes bytes = word_of_nat (horner_sum unat 256 bytes)"

definition vtk_decode :: "(byte list \<Rightarrow> byte list option) \<Rightarrow> string \<Rightarrow> byte list option" where
  "vtk_decode inflate text =
     (case base64_decode (take 44 text) of
        None \<Rightarrow> None
      | Some header \<Rightarrow>
          let blocks = u64_of_bytes (take 8 header);
              raw_bytes = u64_of_bytes (take 8 (drop 8 header));
              last_bytes = u64_of_bytes (take 8 (drop 16 header));
              compressed_bytes = u64_of_bytes (take 8 (drop 24 header))
          in if length header \<noteq> 32 \<or> blocks \<noteq> 1 \<or> last_bytes \<noteq> raw_bytes then None
             else
               case base64_decode (takeWhile (\<lambda>c. c \<noteq> CHR ''\<newline>'') (drop 44 text)) of
                 None \<Rightarrow> None
               | Some payload \<Rightarrow>
                   if length payload \<noteq> unat compressed_bytes then None
                   else
                     case inflate payload of
                       None \<Rightarrow> None
                     | Some bytes \<Rightarrow>
                         if length bytes = unat raw_bytes then Some bytes else None)"

text \<open>
  The unstructured-grid file of a tree export with the given numbers of points and
  cells, around the elements of its six arrays: the cell types, offsets and
  connectivity, the point coordinates, and the depth and position of each cell.
\<close>

definition vtu_text ::
  "int \<Rightarrow> int \<Rightarrow> string \<Rightarrow> string \<Rightarrow> string \<Rightarrow> string \<Rightarrow> string \<Rightarrow> string \<Rightarrow> string" where
  \<open>vtu_text npoints ncells types offsets connectivity coordinates depths ijks =
     ''<VTKFile type="UnstructuredGrid" header_type="UInt64" compressor="vtkZLibDataCompressor">\<newline>''
       @ ''<UnstructuredGrid>\<newline>''
       @ ''<Piece NumberOfPoints="'' @ to_string npoints @ ''" NumberOfCells="''
       @ to_string ncells @ ''">\<newline>''
       @ ''<Cells>\<newline>'' @ types @ offsets @ connectivity @ ''</Cells>\<newline>''
       @ ''<Points>\<newline>'' @ coordinates @ ''</Points>\<newline>''
       @ ''<CellData>\<newline>'' @ depths @ ijks @ ''</CellData>\<newline>''
       @ ''<PointData>\<newline></PointData>\<newline></Piece>\<newline></UnstructuredGrid>\<newline></VTKFile>\<newline>''\<close>

text \<open>
  Corner \<open>k\<close> of a leaf, as a row of coordinates:
  \<open>boxLower + elementwise(boxExtent, cornerOffset\<^sub>k)\<close>, for the box that the geometry
  function gives the leaf, with the corner offsets in the order of the cell types of
  the output format.
\<close>

definition row_of :: "'a vector3 \<Rightarrow> 'a list" where
  "row_of v = [vec_x v, vec_y v, vec_z v]"

definition corner_offsets :: "int vector3 list" where
  "corner_offsets =
     [vector3 0 0 0, vector3 1 0 0, vector3 1 1 0, vector3 0 1 0,
      vector3 0 0 1, vector3 1 0 1, vector3 1 1 1, vector3 0 1 1]"

definition corner_row ::
  "('d, 'f, 't) platform \<Rightarrow> Point \<Rightarrow> 'd box3 \<Rightarrow> Node \<Rightarrow> nat \<Rightarrow> 'd list" where
  "corner_row env base domain leaf k =
     (let box = get_block_domain env base (pt leaf) domain
      in row_of (plus_vec env (lower box)
           (hadamard_product env (box_extents env box) (corner_offsets ! k))))"

section \<open>A platform to compute with\<close>

text \<open>
  An instance of the platform on which the writers can be evaluated: exact real
  arithmetic for doubles, floats that are the multiples of \<open>1/1024\<close> with rounding to
  the nearest one, values of 8 and 4 bytes, a compressor that stores its input
  unchanged, row-major views, a tree that is given by the list of its leaves and counts
  how often it has been traversed, and a geometry function that gives a leaf the unit
  box at its position.
\<close>

definition unit_box :: "int vector3 \<Rightarrow> real box3" where
  "unit_box v =
     \<lparr>lower = vector3 (of_int (vec_x v)) (of_int (vec_y v)) (of_int (vec_z v)),
      upper = vector3 (of_int (vec_x v) + 1) (of_int (vec_y v) + 1) (of_int (vec_z v) + 1)\<rparr>"

definition real_t :: "nat \<Rightarrow> real ctype" where
  "real_t count =
     \<lparr>sizeof = count, object_bytes = (\<lambda>q. le_bytes count (nat \<lfloor>q * 1024\<rfloor>)),
      zero_value = 0\<rparr>"

definition stored :: "(real, real, Node list \<times> nat) platform" where
  "stored =
     \<lparr>compressBound = (\<lambda>n. n + 13),
      compress2 = (\<lambda>capacity source level. (Z_OK, source)),
      view_layout = LayoutRight,
      double_of_int = of_int,
      double_neg = uminus,
      double_add = (+),
      double_sub = (-),
      double_mul = (*),
      double_div = (/),
      float_of_double = (\<lambda>q. of_int \<lfloor>q * 1024 + 1 / 2\<rfloor> / 1024),
      double_t = real_t 8,
      float_t = real_t 4,
      show_double = (\<lambda>q. to_string \<lfloor>q\<rfloor>),
      get_block_domain = (\<lambda>base pt domain. unit_box (ijk pt)),
      collect_leaves = (\<lambda>tree. (fst tree, (fst tree, snd tree + 1))),
      tree_dim = (\<lambda>tree. 3),
      tree_base = (\<lambda>tree. \<lparr>depth = 0, ijk = vector3 0 0 0\<rparr>)\<rparr>"

text \<open>The same platform with a compressor that always fails (\<^verbatim>\<open>Z_BUF_ERROR\<close>).\<close>

definition failing :: "(real, real, Node list \<times> nat) platform" where
  "failing = stored\<lparr>compress2 := (\<lambda>capacity source level. (- 5, []))\<rparr>"

text \<open>
  Inputs to compute with: a block of a given degree with two cells along the first axis,
  a block of degree 1 with \<open>2\<^sup>3\<^sup>0\<close> cells along it, two leaves, \<open>2\<^sup>2\<^sup>8\<close> leaves, a small array.
\<close>

definition block_of_degree :: "int \<Rightarrow> real Block" where
  "block_of_degree p =
     \<lparr>basis_p = p,
      cell_grid = \<lparr>extents = vector3 2 1 1\<rparr>,
      block_domain = unit_box (vector3 0 0 0),
      block_dx = vector3 3 3 3,
      block_node = \<lparr>pt = \<lparr>depth = 1, ijk = vector3 0 1 0\<rparr>\<rparr>,
      block_id = 7,
      block_owner = 0\<rparr>"

definition wide_block :: "real Block" where
  "wide_block = (block_of_degree 1)\<lparr>cell_grid := \<lparr>extents = vector3 1073741824 1 1\<rparr>\<rparr>"

definition crowd :: "Node list" where
  "crowd = replicate 268435456 \<lparr>pt = \<lparr>depth = 0, ijk = vector3 0 0 0\<rparr>\<rparr>"

definition two_leaves :: "Node list" where
  "two_leaves =
     [\<lparr>pt = \<lparr>depth = 1, ijk = vector3 0 0 0\<rparr>\<rparr>, \<lparr>pt = \<lparr>depth = 2, ijk = vector3 1 0 0\<rparr>\<rparr>]"

definition small_view :: "int VizView" where
  "small_view = (resize int32_t 2 1)\<lparr>h_view := [[1], [2]]\<rparr>"

section \<open>Auxiliary notions for the proofs\<close>

text \<open>Whether a writer stopped by throwing.\<close>

fun raises :: "status \<Rightarrow> bool" where
  "raises (Runtime_error msg) = True"
| "raises Done = False"
| "raises Undefined_behaviour = False"

text \<open>
  The state of a view while a loop fills it: the rows below \<open>i\<close> are written, the others
  are as \<^const>\<open>resize\<close> left them.
\<close>

definition filled :: "'a ctype \<Rightarrow> nat \<Rightarrow> nat \<Rightarrow> (nat \<Rightarrow> 'a list) \<Rightarrow> nat \<Rightarrow> 'a VizView" where
  "filled T n m f i =
     (resize T n m)\<lparr>h_view := map f [0 ..< i] @ replicate (n - i) (replicate m (zero_value T))\<rparr>"

text \<open>
  The three calls with which every array writer of the program ends (opening tag,
  \<^const>\<open>write_data\<close>, closing tag), for an array whose host rows are known.
\<close>

definition write_array ::
  "('d, 'f, 't) platform \<Rightarrow> 'a ctype \<Rightarrow> string \<Rightarrow> string \<Rightarrow> nat \<Rightarrow> 'a list list \<Rightarrow> writer" where
  "write_array env T type name ncomps rows =
     in_sequence
       [emit (\<lambda>stream. write_data_start stream type name (int ncomps)),
        (\<lambda>stream. write_data env T stream ((resize T (length rows) ncomps)\<lparr>h_view := rows\<rparr>) False),
        emit write_data_end]"

text \<open>The row that the loop of \<^const>\<open>write_coordinate\<close> stores for point \<open>k\<close>.\<close>

definition point_row :: "('d, 'f, 't) platform \<Rightarrow> int \<Rightarrow> 'd \<Rightarrow> 'd \<Rightarrow> nat \<Rightarrow> 'f list" where
  "point_row env p o' dx' k =
     [float_of_double env
        (double_add env (double_add env o' (double_mul env (double_of_int env (int k)) dx'))
           (double_mul env (offsetTable env p (int k mod (p + 1))) dx'))]"


section \<open>Lemmas\<close>

subsection \<open>Sequencing\<close>

lemma and_then_Done: "first stream = (Done, stream') \<Longrightarrow> and_then first second stream = second stream'"
  by (simp add: and_then_def)

lemma and_then_emit: "and_then (emit f) second stream = second (f stream)"
  by (simp add: and_then_def emit_def)

lemma and_then_failure:
  "first stream = (failure, stream') \<Longrightarrow> failure \<noteq> Done \<Longrightarrow>
   and_then first second stream = (failure, stream')"
  by (cases failure) (simp_all add: and_then_def)

lemma in_sequence_emit: "in_sequence (emit f # ws) stream = in_sequence ws (f stream)"
  by (simp add: and_then_emit)

lemma in_sequence_failure:
  "w stream = (failure, stream') \<Longrightarrow> failure \<noteq> Done \<Longrightarrow>
   in_sequence (w # ws) stream = (failure, stream')"
  by (simp add: and_then_failure)

subsection \<open>The 32-bit int\<close>

lemma wrap_fits: "fits_int x \<Longrightarrow> wrap x = x"
  by (simp add: wrap_def fits_int_def INT_MIN_def INT_MAX_def)

lemma wrap_add_left: "wrap (wrap a + b) = wrap (a + b)"
proof -
  have "((a - INT_MIN) mod 4294967296 + b) mod 4294967296 = (a - INT_MIN + b) mod 4294967296"
    by (simp add: mod_simps)
  moreover have "a - INT_MIN + b = a + b - INT_MIN"
    by simp
  ultimately show ?thesis
    by (simp add: wrap_def)
qed

lemma wrap_small: "wrap 0 = 0" "wrap 1 = 1" "wrap 2 = 2" "wrap 3 = 3"
  by (simp_all add: wrap_def INT_MIN_def)

lemma num_pts_fits:
  assumes "0 \<le> p" and "0 \<le> n" and "(p + 1) * n + 1 \<le> INT_MAX"
  shows "wrap (wrap (wrap (p + 1) * n) + 1) = (p + 1) * n + 1"
proof (cases "n = 0")
  case True
  then show ?thesis
    by (simp add: wrap_small)
next
  case False
  define q where "q = (p + 1) * n"
  from False assms(2) have "1 \<le> n" by simp
  with assms(1) have "(p + 1) * 1 \<le> (p + 1) * n"
    by (intro mult_left_mono) simp_all
  then have "p + 1 \<le> q"
    by (simp only: q_def mult_1_right)
  moreover from assms(3) have "q + 1 \<le> INT_MAX"
    by (simp add: q_def)
  ultimately have "fits_int (p + 1)" "fits_int q" "fits_int (q + 1)"
    using assms(1) by (simp_all add: fits_int_def INT_MIN_def INT_MAX_def)
  then have "wrap (wrap (wrap (p + 1) * n) + 1) = q + 1"
    by (simp add: wrap_fits q_def [symmetric])
  then show ?thesis
    by (simp add: q_def)
qed

lemma leaves_fit:
  assumes "1 \<le> c" and "(int n + 1) * c \<le> INT_MAX"
  shows "fits_int (int n)" and "fits_int (int n * c)" and "fits_int c"
proof -
  from assms(1) have "int n * 1 \<le> int n * c"
    by (intro mult_left_mono) simp_all
  moreover from assms(1) have "1 * c \<le> (int n + 1) * c"
    by (intro mult_right_mono) simp_all
  moreover have "(int n + 1) * c = int n * c + c"
    by (simp add: algebra_simps)
  ultimately show "fits_int (int n)" and "fits_int (int n * c)" and "fits_int c"
    using assms by (simp_all add: fits_int_def INT_MIN_def INT_MAX_def)
qed

subsection \<open>Bytes\<close>

lemma length_le_bytes: "length (le_bytes count n) = count"
  by (simp add: le_bytes_def)

lemma length_u64_bytes: "length (u64_bytes w) = 8"
  by (simp add: u64_bytes_def length_le_bytes)

lemma length_heads_tails:
  "length [h. (h # t) \<leftarrow> xss] + length (concat [t. (h # t) \<leftarrow> xss]) = length (concat xss)"
proof (induction xss)
  case Nil
  then show ?case by simp
next
  case (Cons xs xss)
  then show ?case by (cases xs) simp_all
qed

lemma length_concat_transpose: "length (concat (transpose rows)) = length (concat rows)"
proof (induction rows rule: transpose.induct)
  case (3 x xs xss)
  have "length (concat (transpose ((x # xs) # xss))) =
      Suc (length [h. (h # t) \<leftarrow> xss]) + length (concat (transpose (xs # [t. (h # t) \<leftarrow> xss])))"
    by simp
  also have "\<dots> = Suc (length [h. (h # t) \<leftarrow> xss]) + (length xs + length (concat [t. (h # t) \<leftarrow> xss]))"
    using "3.IH" by simp
  also have "\<dots> = Suc (length xs) + length (concat xss)"
    using length_heads_tails [of xss] by simp
  finally show ?case by simp
qed simp_all

lemma length_in_memory: "length (in_memory lay rows) = length (concat rows)"
  by (cases lay) (simp_all add: length_concat_transpose)

lemma length_concat_fixed:
  "\<forall>v. length (f v) = n \<Longrightarrow> length (concat (map f vs)) = n * length vs"
  by (induction vs) simp_all

lemma length_host_bytes:
  "\<forall>v. length (object_bytes T v) = sizeof T \<Longrightarrow>
   length (host_bytes env T dual) = sizeof T * view_size (h_view dual)"
  by (simp add: host_bytes_def view_size_def length_concat_fixed length_in_memory)

subsection \<open>The encoder\<close>

lemma write_data_result:
  assumes repr: "\<forall>v. length (object_bytes T v) = sizeof T"
    and raw: "raw = host_bytes env T (if copy then sync_host dual else dual)"
    and small: "length raw < 2 ^ 64"
  shows "write_data env T stream dual copy =
     (case compress2 env (compressBound env (length raw)) raw Z_BEST_SPEED of
        (ret, compressed) \<Rightarrow>
          if ret \<noteq> Z_OK then (Runtime_error ''vtk - zlib error'', stream)
          else (Done, stream
                 @ base64_encode (concat (map u64_bytes
                     [1, word_of_nat (length raw), word_of_nat (length raw),
                      word_of_nat (length compressed)]))
                 @ base64_encode compressed @ ''\<newline>''))"
proof -
  define host where "host = (if copy then sync_host dual else dual)"
  have len: "length raw = sizeof T * view_size (h_view host)"
    using repr raw by (simp add: length_host_bytes host_def)
  then have w: "(word_of_nat (sizeof T) * word_of_nat (view_size (h_view host)) :: 64 word)
      = word_of_nat (length raw)"
    by simp
  have u: "unat (word_of_nat (length raw) :: 64 word) = length raw"
    using small by (simp add: unat_of_nat)
  have r: "host_bytes env T host = raw"
    using raw by (simp add: host_def)
  show ?thesis
    unfolding write_data_def Let_def host_def [symmetric] w u r
    by (simp split: prod.splits)
qed

lemma write_data_unfold:
  assumes host: "host = (if copy then sync_host dual else dual)"
    and n: "n = unat (word_of_nat (sizeof T) * word_of_nat (view_size (h_view host)) :: 64 word)"
  shows "write_data env T stream dual copy =
     (case compress2 env (compressBound env n) (take n (host_bytes env T host)) Z_BEST_SPEED of
        (ret, compressed) \<Rightarrow>
          if ret \<noteq> Z_OK then (Runtime_error ''vtk - zlib error'', stream)
          else (Done, stream
                 @ base64_encode (concat (map u64_bytes
                     [1, word_of_nat (sizeof T) * word_of_nat (view_size (h_view host)),
                      word_of_nat (sizeof T) * word_of_nat (view_size (h_view host)),
                      word_of_nat (length compressed)]))
                 @ base64_encode compressed @ ''\<newline>''))"
  unfolding write_data_def Let_def host [symmetric] n [symmetric]
  by (simp split: prod.splits)

lemma write_data_always_failing:
  assumes "\<forall>capacity source. fst (compress2 env capacity source Z_BEST_SPEED) \<noteq> Z_OK"
  shows "write_data env T stream dual copy = (Runtime_error ''vtk - zlib error'', stream)"
proof -
  define host where "host = (if copy then sync_host dual else dual)"
  define n where
    "n = unat (word_of_nat (sizeof T) * word_of_nat (view_size (h_view host)) :: 64 word)"
  obtain ret compressed where
    c: "compress2 env (compressBound env n) (take n (host_bytes env T host)) Z_BEST_SPEED
          = (ret, compressed)"
    by fastforce
  with assms have "ret \<noteq> Z_OK"
    by (metis fst_conv)
  then show ?thesis
    using c by (simp add: write_data_unfold [OF host_def n_def])
qed

lemma write_data_status:
  "fst (write_data env T stream dual copy) \<in> {Done, Runtime_error ''vtk - zlib error''}"
  by (simp add: write_data_unfold [OF refl refl] split: prod.splits)

lemma write_data_failure_stream:
  "fst (write_data env T stream dual copy) \<noteq> Done \<Longrightarrow>
   write_data env T stream dual copy = (Runtime_error ''vtk - zlib error'', stream)"
  by (simp add: write_data_unfold [OF refl refl] split: prod.splits if_splits)

subsection \<open>Filling a view row by row\<close>

lemma filled_0: "filled T n m f 0 = resize T n m"
  by (simp add: filled_def resize_def)

lemma filled_full: "filled T n m f n = (resize T n m)\<lparr>h_view := map f [0 ..< n]\<rparr>"
  by (simp add: filled_def)

lemma update_next_row:
  assumes "i < n"
  shows "(map f [0 ..< i] @ replicate (n - i) r)[i := f i] = map f [0 ..< Suc i] @ replicate (n - Suc i) r"
proof -
  from assms have "replicate (n - i) r = r # replicate (n - Suc i) r"
    by (metis Suc_diff_Suc replicate_Suc)
  then show ?thesis
    by (simp add: list_update_append)
qed

lemma next_row:
  assumes "i < n"
  shows "(map f [0 ..< i] @ replicate (n - i) r) ! i = r"
  using assms by (simp add: nth_append)

lemma store_filled:
  assumes "i < n" and "f i = [v]"
  shows "store (filled T n 1 f i) i 0 v = filled T n 1 f (Suc i)"
  using assms update_next_row [OF assms(1), of f "[zero_value T]"]
  by (simp add: store_def filled_def resize_def next_row)

lemma store_vector_filled:
  assumes "i < n" and "f i = row_of v"
  shows "store_vector (filled T n 3 f i) i v = filled T n 3 f (Suc i)"
  using assms update_next_row [OF assms(1), of f "replicate 3 (zero_value T)"]
  by (simp add: store_vector_def axes_def store_def filled_def resize_def next_row row_of_def
      numeral_3_eq_3)

subsection \<open>The loops over cells, points and leaves\<close>

lemma types_loop_filled:
  "0 \<le> i \<Longrightarrow> i \<le> num \<Longrightarrow> types = filled T (nat num) 1 (\<lambda>k. [type]) (nat i) \<Longrightarrow>
   types_loop type i num types = filled T (nat num) 1 (\<lambda>k. [type]) (nat num)"
proof (induction type i num types rule: types_loop.induct)
  case (1 type i num types)
  show ?case
  proof (cases "i < num")
    case True
    with "1.prems" have step: "store types (nat i) 0 type =
        filled T (nat num) 1 (\<lambda>k. [type]) (nat (i + 1))"
      using store_filled [of "nat i" "nat num" "\<lambda>k. [type]" type T]
      by (simp add: nat_add_distrib)
    have "types_loop type i num types = types_loop type (i + 1) num (store types (nat i) 0 type)"
      using True by (subst types_loop.simps) simp
    also have "\<dots> = filled T (nat num) 1 (\<lambda>k. [type]) (nat num)"
      using "1.IH" [OF True _ _ step] True "1.prems" by simp
    finally show ?thesis .
  next
    case False
    with "1.prems" have "i = num" by simp
    with "1.prems" show ?thesis
      by (subst types_loop.simps) simp
  qed
qed

lemma offsets_loop_filled:
  "0 \<le> i \<Longrightarrow> i \<le> num \<Longrightarrow> offset' = wrap ((i + 1) * nents) \<Longrightarrow>
   offsets = filled T (nat num) 1 (\<lambda>k. [wrap ((int k + 1) * nents)]) (nat i) \<Longrightarrow>
   offsets_loop nents offset' i num offsets =
     filled T (nat num) 1 (\<lambda>k. [wrap ((int k + 1) * nents)]) (nat num)"
proof (induction nents offset' i num offsets rule: offsets_loop.induct)
  case (1 nents offset' i num offsets)
  show ?case
  proof (cases "i < num")
    case True
    with "1.prems" have step: "store offsets (nat i) 0 offset' =
        filled T (nat num) 1 (\<lambda>k. [wrap ((int k + 1) * nents)]) (nat (i + 1))"
      using store_filled [of "nat i" "nat num" "\<lambda>k. [wrap ((int k + 1) * nents)]" offset' T]
      by (simp add: nat_add_distrib)
    have "(i + 1) * nents + nents = (i + 1 + 1) * nents"
      by (simp add: algebra_simps)
    with "1.prems" have next_offset: "wrap (offset' + nents) = wrap ((i + 1 + 1) * nents)"
      by (simp only: wrap_add_left)
    have "offsets_loop nents offset' i num offsets =
        offsets_loop nents (wrap (offset' + nents)) (i + 1) num (store offsets (nat i) 0 offset')"
      using True by (subst offsets_loop.simps) simp
    also have "\<dots> = filled T (nat num) 1 (\<lambda>k. [wrap ((int k + 1) * nents)]) (nat num)"
      using "1.IH" [OF True _ _ next_offset step] True "1.prems" by simp
    finally show ?thesis .
  next
    case False
    with "1.prems" have "i = num" by simp
    with "1.prems" show ?thesis
      by (subst offsets_loop.simps) simp
  qed
qed

lemma connectivity_loop_filled:
  "0 \<le> i \<Longrightarrow> i \<le> npoints \<Longrightarrow>
   connectivity = filled T (nat npoints) 1 (\<lambda>k. [int k]) (nat i) \<Longrightarrow>
   connectivity_loop i npoints connectivity = filled T (nat npoints) 1 (\<lambda>k. [int k]) (nat npoints)"
proof (induction i npoints connectivity rule: connectivity_loop.induct)
  case (1 i npoints connectivity)
  show ?case
  proof (cases "i < npoints")
    case True
    with "1.prems" have step: "store connectivity (nat i) 0 i =
        filled T (nat npoints) 1 (\<lambda>k. [int k]) (nat (i + 1))"
      using store_filled [of "nat i" "nat npoints" "\<lambda>k. [int k]" i T]
      by (simp add: nat_add_distrib)
    have "connectivity_loop i npoints connectivity =
        connectivity_loop (i + 1) npoints (store connectivity (nat i) 0 i)"
      using True by (subst connectivity_loop.simps) simp
    also have "\<dots> = filled T (nat npoints) 1 (\<lambda>k. [int k]) (nat npoints)"
      using "1.IH" [OF True _ _ step] True "1.prems" by simp
    finally show ?thesis .
  next
    case False
    with "1.prems" have "i = npoints" by simp
    with "1.prems" show ?thesis
      by (subst connectivity_loop.simps) simp
  qed
qed

lemma depths_loop_filled:
  "0 \<le> i \<Longrightarrow> i \<le> nleaves \<Longrightarrow>
   depths = filled T (nat nleaves) 1 (\<lambda>k. [depth (pt (leaves ! k))]) (nat i) \<Longrightarrow>
   depths_loop leaves i nleaves depths =
     filled T (nat nleaves) 1 (\<lambda>k. [depth (pt (leaves ! k))]) (nat nleaves)"
proof (induction leaves i nleaves depths rule: depths_loop.induct)
  case (1 leaves i nleaves depths)
  show ?case
  proof (cases "i < nleaves")
    case True
    with "1.prems" have step: "store depths (nat i) 0 (depth (pt (leaves ! nat i))) =
        filled T (nat nleaves) 1 (\<lambda>k. [depth (pt (leaves ! k))]) (nat (i + 1))"
      using store_filled [of "nat i" "nat nleaves" "\<lambda>k. [depth (pt (leaves ! k))]"
          "depth (pt (leaves ! nat i))" T]
      by (simp add: nat_add_distrib)
    have "depths_loop leaves i nleaves depths =
        depths_loop leaves (i + 1) nleaves (store depths (nat i) 0 (depth (pt (leaves ! nat i))))"
      using True by (subst depths_loop.simps) simp
    also have "\<dots> = filled T (nat nleaves) 1 (\<lambda>k. [depth (pt (leaves ! k))]) (nat nleaves)"
      using "1.IH" [OF True _ _ step] True "1.prems" by simp
    finally show ?thesis .
  next
    case False
    with "1.prems" have "i = nleaves" by simp
    with "1.prems" show ?thesis
      by (subst depths_loop.simps) simp
  qed
qed

lemma ijks_loop_filled:
  "0 \<le> i \<Longrightarrow> i \<le> nleaves \<Longrightarrow>
   ijks = filled T (nat nleaves) 3 (\<lambda>k. row_of (ijk (pt (leaves ! k)))) (nat i) \<Longrightarrow>
   ijks_loop leaves i nleaves ijks =
     filled T (nat nleaves) 3 (\<lambda>k. row_of (ijk (pt (leaves ! k)))) (nat nleaves)"
proof (induction leaves i nleaves ijks rule: ijks_loop.induct)
  case (1 leaves i nleaves ijks)
  show ?case
  proof (cases "i < nleaves")
    case True
    with "1.prems" have step: "store_vector ijks (nat i) (ijk (pt (leaves ! nat i))) =
        filled T (nat nleaves) 3 (\<lambda>k. row_of (ijk (pt (leaves ! k)))) (nat (i + 1))"
      using store_vector_filled [of "nat i" "nat nleaves" "\<lambda>k. row_of (ijk (pt (leaves ! k)))"
          "ijk (pt (leaves ! nat i))" T]
      by (simp add: nat_add_distrib)
    have "ijks_loop leaves i nleaves ijks =
        ijks_loop leaves (i + 1) nleaves (store_vector ijks (nat i) (ijk (pt (leaves ! nat i))))"
      using True by (subst ijks_loop.simps) simp
    also have "\<dots> = filled T (nat nleaves) 3 (\<lambda>k. row_of (ijk (pt (leaves ! k)))) (nat nleaves)"
      using "1.IH" [OF True _ _ step] True "1.prems" by simp
    finally show ?thesis .
  next
    case False
    with "1.prems" have "i = nleaves" by simp
    with "1.prems" show ?thesis
      by (subst ijks_loop.simps) simp
  qed
qed

subsection \<open>The loop over the points of an axis\<close>

lemma rem_nonneg: "0 \<le> a \<Longrightarrow> 0 < b \<Longrightarrow> rem a b = a mod b"
  by (cases "a = 0") (simp_all add: rem_def)

lemma offset_rows:
  "offset env =
     [[double_of_int env 0, double_of_int env 0, double_of_int env 0],
      [double_of_int env 0, double_of_int env 0, double_of_int env 0],
      [double_of_int env 0,
       double_div env (double_neg env (double_of_int env 2)) (double_of_int env 9),
       double_div env (double_of_int env 2) (double_of_int env 9)]]"
  by (simp add: offset_def zero_filled_def max_p_def Let_def)

lemma offset_lookup:
  assumes "p = 0 \<or> p = 1 \<or> p = 2" and "0 \<le> m" and "m \<le> p"
  shows "(case at_index (offset env) p of None \<Rightarrow> None | Some row \<Rightarrow> at_index row m)
           = Some (offsetTable env p m)"
proof -
  from assms have "m = 0 \<or> m = 1 \<or> m = 2"
    by auto
  with assms show ?thesis
    by (auto simp add: at_index_def offset_rows offsetTable_def)
qed

lemma coordinate_loop_filled:
  "p = 0 \<or> p = 1 \<or> p = 2 \<Longrightarrow> 0 \<le> i \<Longrightarrow> i \<le> num_pts \<Longrightarrow>
   coord = filled T (nat num_pts) 1 (point_row env p o' dx') (nat i) \<Longrightarrow>
   coordinate_loop env p o' dx' i num_pts coord =
     Some (filled T (nat num_pts) 1 (point_row env p o' dx') (nat num_pts))"
proof (induction env p o' dx' i num_pts coord rule: coordinate_loop.induct)
  case (1 env p o' dx' i num_pts coord)
  show ?case
  proof (cases "i < num_pts")
    case True
    from "1.prems"(1) have w: "wrap (p + 1) = p + 1"
      by (auto simp add: wrap_small)
    from "1.prems" have m: "rem i (p + 1) = i mod (p + 1)" "0 \<le> i mod (p + 1)" "i mod (p + 1) \<le> p"
      by (auto simp add: rem_nonneg)
    obtain row where row: "at_index (offset env) p = Some row"
      and off: "at_index row (i mod (p + 1)) = Some (offsetTable env p (i mod (p + 1)))"
      using offset_lookup [OF "1.prems"(1) m(2) m(3), of env]
      by (auto split: option.splits)
    from off m(1) w have off_rem:
      "at_index row (rem i (wrap (p + 1))) = Some (offsetTable env p (i mod (p + 1)))"
      by simp
    define v where "v = float_of_double env
        (double_add env (double_add env o' (double_mul env (double_of_int env i) dx'))
           (double_mul env (offsetTable env p (i mod (p + 1))) dx'))"
    from "1.prems" True have "point_row env p o' dx' (nat i) = [v]"
      by (simp add: point_row_def v_def)
    with "1.prems" True have step: "store coord (nat i) 0 v =
        filled T (nat num_pts) 1 (point_row env p o' dx') (nat (i + 1))"
      using store_filled [of "nat i" "nat num_pts" "point_row env p o' dx'" v T]
      by (simp add: nat_add_distrib)
    from "1.prems" w have nz: "wrap (p + 1) \<noteq> 0" by auto
    have "coordinate_loop env p o' dx' i num_pts coord =
        coordinate_loop env p o' dx' (i + 1) num_pts (store coord (nat i) 0 v)"
      using True nz by (subst coordinate_loop.simps) (simp add: w m row off v_def)
    also have "\<dots> = Some (filled T (nat num_pts) 1 (point_row env p o' dx') (nat num_pts))"
      using "1.IH" [OF True nz refl row off_rem "1.prems"(1) _ _] step True "1.prems"
      by (simp add: v_def)
    finally show ?thesis .
  next
    case False
    with "1.prems" have "i = num_pts" by simp
    with "1.prems" show ?thesis
      by (subst coordinate_loop.simps) simp
  qed
qed

subsection \<open>The loops over the corners of the leaves\<close>

lemma corners_loop_filled:
  "0 \<le> c \<Longrightarrow> c \<le> ncorners \<Longrightarrow> ncorners \<le> 8 \<Longrightarrow> 0 \<le> idx \<Longrightarrow>
   idx + (ncorners - c) \<le> npoints \<Longrightarrow>
   coords = filled T (nat npoints) 3 f (nat idx) \<Longrightarrow>
   (\<And>k. c \<le> k \<Longrightarrow> k < ncorners \<Longrightarrow>
      f (nat (idx + (k - c))) = row_of (plus_vec env o' (hadamard_product env dx' (vtk_corners ! nat k)))) \<Longrightarrow>
   corners_loop env o' dx' npoints c ncorners idx coords =
     Some (idx + (ncorners - c), filled T (nat npoints) 3 f (nat (idx + (ncorners - c))))"
proof (induction env o' dx' npoints c ncorners idx coords rule: corners_loop.induct)
  case (1 env o' dx' npoints c ncorners idx coords)
  show ?case
  proof (cases "c < ncorners")
    case True
    with "1.prems" have corner: "at_index vtk_corners c = Some (vtk_corners ! nat c)"
      by (simp add: at_index_def vtk_corners_def)
    from True "1.prems" have inside: "\<not> (idx < 0 \<or> npoints \<le> idx)"
      by simp
    define x where "x = plus_vec env o' (hadamard_product env dx' (vtk_corners ! nat c))"
    from "1.prems"(7) [of c] True "1.prems"(1) have "f (nat idx) = row_of x"
      by (simp add: x_def)
    with True "1.prems" have step: "store_vector coords (nat idx) x =
        filled T (nat npoints) 3 f (nat (idx + 1))"
      using store_vector_filled [of "nat idx" "nat npoints" f x T]
      by (simp add: nat_add_distrib)
    have rest: "f (nat (idx + 1 + (k - (c + 1)))) =
        row_of (plus_vec env o' (hadamard_product env dx' (vtk_corners ! nat k)))"
      if "c + 1 \<le> k" "k < ncorners" for k
    proof -
      have "idx + 1 + (k - (c + 1)) = idx + (k - c)" by simp
      with "1.prems"(7) [of k] that show ?thesis by simp
    qed
    have "corners_loop env o' dx' npoints c ncorners idx coords =
        corners_loop env o' dx' npoints (c + 1) ncorners (idx + 1) (store_vector coords (nat idx) x)"
      using True inside corner by (subst corners_loop.simps) (simp add: x_def)
    also have "\<dots> = Some (idx + 1 + (ncorners - (c + 1)),
        filled T (nat npoints) 3 f (nat (idx + 1 + (ncorners - (c + 1)))))"
      using "1.IH" [OF True corner inside x_def _ _ _ _ _ step rest] True "1.prems"
      by simp
    finally show ?thesis by simp
  next
    case False
    with "1.prems" have "c = ncorners" by simp
    with "1.prems" show ?thesis
      by (subst corners_loop.simps) simp
  qed
qed

lemma leaves_loop_filled:
  "0 \<le> ncorners \<Longrightarrow> ncorners \<le> 8 \<Longrightarrow> 0 \<le> idx \<Longrightarrow>
   idx + int (length leaves) * ncorners \<le> npoints \<Longrightarrow>
   coords = filled T (nat npoints) 3 f (nat idx) \<Longrightarrow>
   (\<And>j k. j < length leaves \<Longrightarrow> k < nat ncorners \<Longrightarrow>
      f (nat idx + j * nat ncorners + k) = corner_row env base domain (leaves ! j) k) \<Longrightarrow>
   leaves_loop env base domain npoints ncorners leaves idx coords =
     Some (idx + int (length leaves) * ncorners,
           filled T (nat npoints) 3 f (nat (idx + int (length leaves) * ncorners)))"
proof (induction leaves arbitrary: idx coords)
  case Nil
  then show ?case by simp
next
  case (Cons leaf leaves)
  define box where "box = get_block_domain env base (pt leaf) domain"
  from Cons.prems have pos: "0 \<le> int (length leaves) * ncorners"
    by simp
  have first: "corners_loop env (lower box) (box_extents env box) npoints 0 ncorners idx coords =
      Some (idx + (ncorners - 0), filled T (nat npoints) 3 f (nat (idx + (ncorners - 0))))"
  proof (rule corners_loop_filled)
    show "idx + (ncorners - 0) \<le> npoints"
      using Cons.prems(4) pos by (simp add: algebra_simps)
    show "f (nat (idx + (k - 0))) =
        row_of (plus_vec env (lower box) (hadamard_product env (box_extents env box) (vtk_corners ! nat k)))"
      if "0 \<le> k" "k < ncorners" for k
    proof -
      from that Cons.prems(3) have "nat (idx + (k - 0)) = nat idx + 0 * nat ncorners + nat k"
        by (simp add: nat_add_distrib)
      moreover from that have "nat k < nat ncorners" by simp
      ultimately show ?thesis
        using Cons.prems(6) [of 0 "nat k"]
        by (simp add: corner_row_def box_def Let_def vtk_corners_def corner_offsets_def)
    qed
  qed (use Cons.prems in simp_all)
  have rest: "leaves_loop env base domain npoints ncorners leaves (idx + ncorners)
        (filled T (nat npoints) 3 f (nat (idx + ncorners))) =
      Some (idx + ncorners + int (length leaves) * ncorners,
            filled T (nat npoints) 3 f (nat (idx + ncorners + int (length leaves) * ncorners)))"
  proof (rule Cons.IH)
    show "idx + ncorners + int (length leaves) * ncorners \<le> npoints"
      using Cons.prems(4) by (simp add: algebra_simps)
    show "f (nat (idx + ncorners) + j * nat ncorners + k) = corner_row env base domain (leaves ! j) k"
      if "j < length leaves" "k < nat ncorners" for j k
    proof -
      from Cons.prems have "nat (idx + ncorners) + j * nat ncorners + k =
          nat idx + Suc j * nat ncorners + k"
        by (simp add: nat_add_distrib)
      with Cons.prems(6) [of "Suc j" k] that show ?thesis by (simp add: add.assoc)
    qed
  qed (use Cons.prems in simp_all)
  show ?case
    using first rest by (simp add: box_def Let_def algebra_simps)
qed

subsection \<open>The array writers in closed form\<close>

lemma write_array_filled:
  "in_sequence
     [emit (\<lambda>stream. write_data_start stream type name (int m)),
      (\<lambda>stream. write_data env T stream (filled T n m f n) False),
      emit write_data_end] stream
   = write_array env T type name m (map f [0 ..< n]) stream"
  by (simp add: write_array_def filled_full)

lemma write_tree_types_closed:
  assumes "at_index vtk_types d = Some type" and "0 \<le> num"
  shows "write_tree_types env stream d num =
     write_array env int8_t ''Int8'' ''types'' 1 (map (\<lambda>k. [type]) [0 ..< nat num]) stream"
proof -
  have "types_loop type 0 num (resize int8_t (nat num) 1) =
      filled int8_t (nat num) 1 (\<lambda>k. [type]) (nat num)"
    using assms(2) by (intro types_loop_filled) (simp_all add: filled_0)
  with assms show ?thesis
    using write_array_filled [of "''Int8''" "''types''" 1 env int8_t "nat num" "\<lambda>k. [type]" stream]
    by (simp add: write_tree_types_def)
qed

lemma write_tree_offsets_wrapped:
  assumes "0 \<le> num" and "fits_int nents"
  shows "write_tree_offsets env stream num nents =
     write_array env int32_t ''Int32'' ''offsets'' 1
       (map (\<lambda>k. [wrap ((int k + 1) * nents)]) [0 ..< nat num]) stream"
proof -
  have "offsets_loop nents nents 0 num (resize int32_t (nat num) 1) =
      filled int32_t (nat num) 1 (\<lambda>k. [wrap ((int k + 1) * nents)]) (nat num)"
    using assms by (intro offsets_loop_filled) (simp_all add: filled_0 wrap_fits)
  with assms show ?thesis
    using write_array_filled [of "''Int32''" "''offsets''" 1 env int32_t "nat num"
        "\<lambda>k. [wrap ((int k + 1) * nents)]" stream]
    by (simp add: write_tree_offsets_def)
qed

lemma offsets_in_range:
  assumes "0 \<le> nents" and "num * nents \<le> INT_MAX"
  shows "map (\<lambda>k. [wrap ((int k + 1) * nents)]) [0 ..< nat num] =
     map (\<lambda>k. [(int k + 1) * nents]) [0 ..< nat num]"
proof (rule map_cong [OF refl])
  fix k
  assume "k \<in> set [0 ..< nat num]"
  then have "int k + 1 \<le> num"
    by auto
  then have "(int k + 1) * nents \<le> num * nents"
    using assms(1) by (rule mult_right_mono)
  moreover have "0 \<le> (int k + 1) * nents"
    using assms(1) by simp
  ultimately have "fits_int ((int k + 1) * nents)"
    using assms(2) by (simp add: fits_int_def INT_MIN_def)
  then show "[wrap ((int k + 1) * nents)] = [(int k + 1) * nents]"
    by (simp add: wrap_fits)
qed

lemma write_tree_offsets_closed:
  assumes "0 \<le> num" and "0 \<le> nents" and "nents \<le> INT_MAX" and "num * nents \<le> INT_MAX"
  shows "write_tree_offsets env stream num nents =
     write_array env int32_t ''Int32'' ''offsets'' 1
       (map (\<lambda>k. [(int k + 1) * nents]) [0 ..< nat num]) stream"
proof -
  from assms(2,3) have "fits_int nents"
    by (simp add: fits_int_def INT_MIN_def)
  with assms show ?thesis
    by (simp add: write_tree_offsets_wrapped offsets_in_range)
qed

lemma write_tree_connectivity_closed:
  assumes "0 \<le> npoints"
  shows "write_tree_connectivity env stream npoints =
     write_array env int32_t ''Int32'' ''connectivity'' 1
       (map (\<lambda>k. [int k]) [0 ..< nat npoints]) stream"
proof -
  have "connectivity_loop 0 npoints (resize int32_t (nat npoints) 1) =
      filled int32_t (nat npoints) 1 (\<lambda>k. [int k]) (nat npoints)"
    using assms by (intro connectivity_loop_filled) (simp_all add: filled_0)
  with assms show ?thesis
    using write_array_filled [of "''Int32''" "''connectivity''" 1 env int32_t "nat npoints"
        "\<lambda>k. [int k]" stream]
    by (simp add: write_tree_connectivity_def)
qed

lemma leaves_wrap:
  "int (length leaves) \<le> INT_MAX \<Longrightarrow> wrap (int (length leaves)) = int (length leaves)"
  by (simp add: wrap_fits fits_int_def INT_MIN_def)

lemma write_leaf_depths_closed:
  assumes "int (length leaves) \<le> INT_MAX"
  shows "write_leaf_depths env stream leaves =
     write_array env int32_t ''Int32'' ''depth'' 1 (map (\<lambda>leaf. [depth (pt leaf)]) leaves) stream"
proof -
  have "depths_loop leaves 0 (int (length leaves)) (resize int32_t (nat (int (length leaves))) 1) =
      filled int32_t (nat (int (length leaves))) 1 (\<lambda>k. [depth (pt (leaves ! k))])
        (nat (int (length leaves)))"
    by (intro depths_loop_filled) (simp_all add: filled_0)
  then have "depths_loop leaves 0 (int (length leaves)) (resize int32_t (length leaves) 1) =
      filled int32_t (length leaves) 1 (\<lambda>k. [depth (pt (leaves ! k))]) (length leaves)"
    by simp
  moreover have "map (\<lambda>k. [depth (pt (leaves ! k))]) [0 ..< length leaves] =
      map (\<lambda>leaf. [depth (pt leaf)]) leaves"
    by (rule nth_equalityI) simp_all
  ultimately show ?thesis
    using write_array_filled [of "''Int32''" "''depth''" 1 env int32_t "length leaves"
        "\<lambda>k. [depth (pt (leaves ! k))]" stream]
    by (simp add: write_leaf_depths_def leaves_wrap [OF assms])
qed

lemma write_leaf_ijks_closed:
  assumes "int (length leaves) \<le> INT_MAX"
  shows "write_leaf_ijks env stream leaves =
     write_array env int32_t ''Int32'' ''ijk'' 3 (map (\<lambda>leaf. row_of (ijk (pt leaf))) leaves) stream"
proof -
  have "ijks_loop leaves 0 (int (length leaves)) (resize int32_t (nat (int (length leaves))) 3) =
      filled int32_t (nat (int (length leaves))) 3 (\<lambda>k. row_of (ijk (pt (leaves ! k))))
        (nat (int (length leaves)))"
    by (intro ijks_loop_filled) (simp_all add: filled_0)
  then have "ijks_loop leaves 0 (int (length leaves)) (resize int32_t (length leaves) 3) =
      filled int32_t (length leaves) 3 (\<lambda>k. row_of (ijk (pt (leaves ! k)))) (length leaves)"
    by simp
  moreover have "map (\<lambda>k. row_of (ijk (pt (leaves ! k)))) [0 ..< length leaves] =
      map (\<lambda>leaf. row_of (ijk (pt leaf))) leaves"
    by (rule nth_equalityI) simp_all
  ultimately show ?thesis
    using write_array_filled [of "''Int32''" "''ijk''" 3 env int32_t "length leaves"
        "\<lambda>k. row_of (ijk (pt (leaves ! k)))" stream]
    by (simp add: write_leaf_ijks_def DIMS_def leaves_wrap [OF assms])
qed

lemma rows_leaf_major:
  "map (\<lambda>k. f (xs ! (k div c)) (k mod c)) [0 ..< length xs * c] =
     concat (map (\<lambda>x. map (f x) [0 ..< c]) xs)"
proof (cases "c = 0")
  case True
  then show ?thesis by simp
next
  case False
  then have c: "0 < c" by simp
  show ?thesis
  proof (induction xs)
    case Nil
    then show ?case by simp
  next
    case (Cons x xs)
    have range: "[0 ..< length (x # xs) * c] = [0 ..< c] @ map (\<lambda>k. k + c) [0 ..< length xs * c]"
      using upt_add_eq_append [of 0 c "length xs * c"] by (simp add: map_add_upt add.commute)
    have first: "map (\<lambda>k. f ((x # xs) ! (k div c)) (k mod c)) [0 ..< c] = map (f x) [0 ..< c]"
      by (rule map_cong) simp_all
    have rest: "map (\<lambda>k. f ((x # xs) ! ((k + c) div c)) ((k + c) mod c)) [0 ..< length xs * c] =
        map (\<lambda>k. f (xs ! (k div c)) (k mod c)) [0 ..< length xs * c]"
      using c by (intro map_cong) simp_all
    show ?case
      unfolding range using first rest Cons.IH by (simp add: comp_def)
  qed
qed

lemma write_tree_coords_closed:
  assumes "0 \<le> ncorners" and "ncorners \<le> 8" and "npoints = int (length leaves) * ncorners"
  shows "write_tree_coords env stream base leaves domain npoints ncorners =
     write_array env (double_t env) ''Float64'' ''coordinates'' 3
       (map (\<lambda>k. corner_row env base domain (leaves ! (k div nat ncorners)) (k mod nat ncorners))
          [0 ..< nat npoints]) stream"
proof -
  define f where
    "f = (\<lambda>k. corner_row env base domain (leaves ! (k div nat ncorners)) (k mod nat ncorners))"
  have "leaves_loop env base domain npoints ncorners leaves 0 (resize (double_t env) (nat npoints) 3) =
      Some (0 + int (length leaves) * ncorners,
            filled (double_t env) (nat npoints) 3 f (nat (0 + int (length leaves) * ncorners)))"
  proof (rule leaves_loop_filled)
    show "f (nat 0 + j * nat ncorners + k) = corner_row env base domain (leaves ! j) k"
      if "j < length leaves" "k < nat ncorners" for j k
      using that by (simp add: f_def)
  qed (use assms in \<open>simp_all add: filled_0\<close>)
  moreover from assms have "\<not> int (length leaves) * ncorners < 0"
    by (simp add: not_less)
  ultimately show ?thesis
    using assms write_array_filled [of "''Float64''" "''coordinates''" 3 env "double_t env"
        "nat npoints" f stream]
    by (simp add: write_tree_coords_def DIMS_def f_def)
qed

subsection \<open>What an array writer appends\<close>

lemma int8_repr: "\<forall>v. length (object_bytes int8_t v) = sizeof int8_t"
  by (simp add: int8_t_def length_le_bytes)

lemma int32_repr: "\<forall>v. length (object_bytes int32_t v) = sizeof int32_t"
  by (simp add: int32_t_def length_le_bytes)

lemma length_concat_singletons: "length (concat (map (\<lambda>x. [f x]) xs)) = length xs"
  by (induction xs) simp_all

lemma length_concat_rows: "length (concat (map (\<lambda>x. row_of (f x)) xs)) = 3 * length xs"
  by (induction xs) (simp_all add: row_of_def)

lemma length_concat_corner_rows:
  "length (concat (map (\<lambda>k. corner_row env base domain (g k) (h k)) ks)) = 3 * length ks"
  by (induction ks) (simp_all add: corner_row_def row_of_def Let_def)

lemma write_array_text:
  assumes repr: "\<forall>v. length (object_bytes T v) = sizeof T"
    and small: "sizeof T * length (concat rows) < 2 ^ 64"
    and ok: "fst (compress2 env (compressBound env (length (array_bytes env T rows)))
               (array_bytes env T rows) Z_BEST_SPEED) = Z_OK"
  shows "write_array env T type name m rows stream =
     (Done, stream @ array_element env T type name m rows)"
proof -
  define view where "view = (resize T (length rows) m)\<lparr>h_view := rows\<rparr>"
  define raw where "raw = array_bytes env T rows"
  have bytes: "raw = host_bytes env T (if False then sync_host view else view)"
    by (simp add: raw_def view_def host_bytes_def array_bytes_def)
  have "length raw = sizeof T * length (concat rows)"
    using repr by (simp add: raw_def array_bytes_def length_concat_fixed length_in_memory)
  with small have len: "length raw < 2 ^ 64"
    by simp
  obtain compressed where
    c: "compress2 env (compressBound env (length raw)) raw Z_BEST_SPEED = (Z_OK, compressed)"
    using ok unfolding raw_def [symmetric] by (metis prod.collapse)
  then have d: "deflated env raw = compressed"
    by (simp add: deflated_def)
  have "write_data env T s view False = (Done, s @ encoded env raw)" for s
    using write_data_result [OF repr bytes len, of s] c d by (simp add: encoded_def)
  then show ?thesis
    unfolding write_array_def view_def [symmetric]
    by (simp add: and_then_emit and_then_def emit_def array_element_def raw_def
        write_data_start_def write_data_end_def to_string_def)
qed

lemma write_array_failing:
  assumes "\<forall>capacity source. fst (compress2 env capacity source Z_BEST_SPEED) \<noteq> Z_OK"
  shows "write_array env T type name m rows stream =
     (Runtime_error ''vtk - zlib error'', write_data_start stream type name (int m))"
  unfolding write_array_def in_sequence_emit
  by (rule in_sequence_failure) (simp_all add: write_data_always_failing [OF assms])

subsection \<open>The tree export in closed form\<close>

lemma ipow_2_bounds: "0 \<le> d \<Longrightarrow> d \<le> 3 \<Longrightarrow> 1 \<le> ipow 2 d \<and> ipow 2 d \<le> 8"
proof -
  assume "0 \<le> d" "d \<le> 3"
  then have "nat d \<le> 3" by simp
  then have "(2::int) ^ nat d \<le> 2 ^ 3"
    by (intro power_increasing) simp_all
  then show ?thesis by (simp add: ipow_def)
qed

lemma write_tree_failure_files:
  "fst (write_tree env path tree domain files) \<noteq> Done \<Longrightarrow>
   fst (snd (write_tree env path tree domain files)) = files"
  unfolding write_tree_def Let_def
  by (simp split: prod.splits status.splits)

lemma write_tree_text:
  assumes d: "0 \<le> tree_dim env tree'" "tree_dim env tree' \<le> 3"
    and collect: "collect_leaves env tree = (leaves, tree')"
    and c: "c = nat (ipow 2 (tree_dim env tree'))"
    and range: "(int (length leaves) + 1) * int c \<le> INT_MAX"
    and ok: "\<forall>source. fst (compress2 env (compressBound env (length source)) source Z_BEST_SPEED)
           = Z_OK"
    and double: "sizeof (double_t env) = 8" "\<forall>v. length (object_bytes (double_t env) v) = 8"
  shows "write_tree env path tree domain files =
     (Done,
      files(path @ ''.vtu'' \<mapsto>
        vtu_text (int (length leaves) * int c) (int (length leaves))
          (array_element env int8_t ''Int8'' ''types'' 1
             (map (\<lambda>i. [[1, 3, 9, 12] ! nat (tree_dim env tree')]) [0 ..< length leaves]))
          (array_element env int32_t ''Int32'' ''offsets'' 1
             (map (\<lambda>i. [(int i + 1) * int c]) [0 ..< length leaves]))
          (array_element env int32_t ''Int32'' ''connectivity'' 1
             (map (\<lambda>k. [int k]) [0 ..< length leaves * c]))
          (array_element env (double_t env) ''Float64'' ''coordinates'' 3
             (map (\<lambda>k. corner_row env (tree_base env tree') domain (leaves ! (k div c)) (k mod c))
                [0 ..< length leaves * c]))
          (array_element env int32_t ''Int32'' ''depth'' 1 (map (\<lambda>leaf. [depth (pt leaf)]) leaves))
          (array_element env int32_t ''Int32'' ''ijk'' 3
             (map (\<lambda>leaf. row_of (ijk (pt leaf))) leaves))),
      tree')"
proof -
  define dm where "dm = tree_dim env tree'"
  define ncorners where "ncorners = ipow 2 dm"
  define L where "L = length leaves"
  have nc: "1 \<le> ncorners" "ncorners \<le> 8"
    using d ipow_2_bounds [of dm] by (simp_all add: ncorners_def dm_def)
  have c': "int c = ncorners" "nat ncorners = c"
    using nc c by (simp_all add: ncorners_def dm_def)
  from range have r: "(int L + 1) * ncorners \<le> INT_MAX"
    by (simp add: c' L_def)
  note fit = leaves_fit [OF nc(1) r]
  have nl: "wrap (int L) = int L" and np: "wrap (int L * ncorners) = int L * ncorners"
    using fit by (simp_all add: wrap_fits)
  have n: "nat (int L * ncorners) = L * c"
    using nc by (simp add: c'(2) [symmetric] nat_mult_distrib)
  from fit(1) have bound: "L \<le> 2147483647"
    by (simp add: fits_int_def INT_MAX_def)
  from fit(2) have "int (L * c) \<le> 2147483647"
    by (simp add: fits_int_def INT_MAX_def c'(1))
  then have bound': "L * c \<le> 2147483647"
    by linarith
  have fitL: "int L \<le> INT_MAX"
    using fit(1) by (simp add: fits_int_def)
  have oks: "fst (compress2 env (compressBound env (length raw)) raw Z_BEST_SPEED) = Z_OK" for raw
    using ok by blast
  have drepr: "\<forall>v. length (object_bytes (double_t env) v) = sizeof (double_t env)"
    using double by simp
  have type: "at_index vtk_types dm = Some ([1, 3, 9, 12] ! nat dm)"
    using d by (simp add: at_index_def vtk_types_def dm_def)
  have types: "write_tree_types env s dm (int L) =
      (Done, s @ array_element env int8_t ''Int8'' ''types'' 1
         (map (\<lambda>i. [[1, 3, 9, 12] ! nat dm]) [0 ..< L]))" for s
  proof -
    have "write_tree_types env s dm (int L) =
        write_array env int8_t ''Int8'' ''types'' 1 (map (\<lambda>i. [[1, 3, 9, 12] ! nat dm]) [0 ..< L]) s"
      using write_tree_types_closed [OF type, of "int L" env s] by simp
    also have "\<dots> = (Done, s @ array_element env int8_t ''Int8'' ''types'' 1
         (map (\<lambda>i. [[1, 3, 9, 12] ! nat dm]) [0 ..< L]))"
      using bound by (intro write_array_text int8_repr oks)
        (simp add: length_concat_singletons int8_t_def)
    finally show ?thesis .
  qed
  have offsets: "write_tree_offsets env s (int L) ncorners =
      (Done, s @ array_element env int32_t ''Int32'' ''offsets'' 1
         (map (\<lambda>i. [(int i + 1) * int c]) [0 ..< L]))" for s
  proof -
    have "write_tree_offsets env s (int L) ncorners =
        write_array env int32_t ''Int32'' ''offsets'' 1
          (map (\<lambda>i. [(int i + 1) * int c]) [0 ..< L]) s"
      using write_tree_offsets_closed [of "int L" ncorners env s] nc fit
      by (simp add: c' fits_int_def)
    also have "\<dots> = (Done, s @ array_element env int32_t ''Int32'' ''offsets'' 1
         (map (\<lambda>i. [(int i + 1) * int c]) [0 ..< L]))"
      using bound by (intro write_array_text int32_repr oks)
        (simp add: length_concat_singletons int32_t_def)
    finally show ?thesis .
  qed
  have connectivity: "write_tree_connectivity env s (int L * ncorners) =
      (Done, s @ array_element env int32_t ''Int32'' ''connectivity'' 1
         (map (\<lambda>k. [int k]) [0 ..< L * c]))" for s
  proof -
    have "write_tree_connectivity env s (int L * ncorners) =
        write_array env int32_t ''Int32'' ''connectivity'' 1 (map (\<lambda>k. [int k]) [0 ..< L * c]) s"
      using write_tree_connectivity_closed [of "int L * ncorners" env s] nc by (simp add: n)
    also have "\<dots> = (Done, s @ array_element env int32_t ''Int32'' ''connectivity'' 1
         (map (\<lambda>k. [int k]) [0 ..< L * c]))"
      using bound' by (intro write_array_text int32_repr oks)
        (simp add: length_concat_singletons int32_t_def)
    finally show ?thesis .
  qed
  have coords: "write_tree_coords env s (tree_base env tree') leaves domain (int L * ncorners) ncorners =
      (Done, s @ array_element env (double_t env) ''Float64'' ''coordinates'' 3
         (map (\<lambda>k. corner_row env (tree_base env tree') domain (leaves ! (k div c)) (k mod c))
            [0 ..< L * c]))" for s
  proof -
    have "write_tree_coords env s (tree_base env tree') leaves domain (int L * ncorners) ncorners =
        write_array env (double_t env) ''Float64'' ''coordinates'' 3
          (map (\<lambda>k. corner_row env (tree_base env tree') domain (leaves ! (k div c)) (k mod c))
             [0 ..< L * c]) s"
      using write_tree_coords_closed [of ncorners "int L * ncorners" leaves env s
          "tree_base env tree'" domain] nc
      by (simp add: n [unfolded L_def] c' L_def)
    also have "\<dots> = (Done, s @ array_element env (double_t env) ''Float64'' ''coordinates'' 3
         (map (\<lambda>k. corner_row env (tree_base env tree') domain (leaves ! (k div c)) (k mod c))
             [0 ..< L * c]))"
      using bound' by (intro write_array_text drepr oks)
        (simp add: length_concat_corner_rows double)
    finally show ?thesis .
  qed
  have depths: "write_leaf_depths env s leaves =
      (Done, s @ array_element env int32_t ''Int32'' ''depth'' 1
         (map (\<lambda>leaf. [depth (pt leaf)]) leaves))" for s
    unfolding write_leaf_depths_closed [OF fitL [unfolded L_def]]
    using bound by (intro write_array_text int32_repr oks)
      (simp add: length_concat_singletons int32_t_def L_def)
  have ijks: "write_leaf_ijks env s leaves =
      (Done, s @ array_element env int32_t ''Int32'' ''ijk'' 3
         (map (\<lambda>leaf. row_of (ijk (pt leaf))) leaves))" for s
    unfolding write_leaf_ijks_closed [OF fitL [unfolded L_def]]
    using bound by (intro write_array_text int32_repr oks)
      (simp add: length_concat_rows int32_t_def L_def)
  show ?thesis
    unfolding write_tree_def Let_def collect
    by (simp add: dm_def [symmetric] ncorners_def [symmetric] L_def [symmetric] nl np
        and_then_def emit_def types offsets connectivity coords depths ijks
        write_stream_def vtu_text_def write_vtu_header_def c')
qed

lemma write_tree_failing:
  assumes always: "\<forall>capacity source. fst (compress2 env capacity source Z_BEST_SPEED) \<noteq> Z_OK"
    and collect: "collect_leaves env tree = (leaves, tree')"
    and d: "0 \<le> tree_dim env tree'" "tree_dim env tree' \<le> 3"
    and fit: "int (length leaves) \<le> INT_MAX"
  shows "write_tree env path tree domain files = (Runtime_error ''vtk - zlib error'', files, tree')"
proof -
  have type: "at_index vtk_types (tree_dim env tree') = Some (vtk_types ! nat (tree_dim env tree'))"
    using d by (simp add: at_index_def vtk_types_def)
  have "write_tree_types env s (tree_dim env tree') (int (length leaves)) =
      (Runtime_error ''vtk - zlib error'', write_data_start s ''Int8'' ''types'' 1)" for s
    using write_tree_types_closed [OF type, of "int (length leaves)" env s]
    by (simp add: write_array_failing [OF always])
  then show ?thesis
    unfolding write_tree_def Let_def collect
    by (simp add: leaves_wrap [OF fit] and_then_def emit_def)
qed

lemma wrap_above:
  assumes "INT_MAX < x" and "x \<le> 4294967295"
  shows "wrap x = x - 4294967296"
proof -
  have "x + 2147483648 = x - 2147483648 + 1 * 4294967296"
    by simp
  then have "(x + 2147483648) mod 4294967296 = (x - 2147483648) mod 4294967296"
    by (simp only: mod_mult_self1)
  also have "\<dots> = x - 2147483648"
    using assms by (simp add: INT_MAX_def)
  finally show ?thesis
    by (simp add: wrap_def INT_MIN_def)
qed

lemma write_tree_overflow:
  assumes collect: "collect_leaves env tree = (leaves, tree')"
    and d: "tree_dim env tree' = 3"
    and fit: "int (length leaves) \<le> INT_MAX"
    and over: "INT_MAX < int (length leaves) * 8" "int (length leaves) * 8 \<le> 4294967295"
    and ok: "\<forall>source. fst (compress2 env (compressBound env (length source)) source Z_BEST_SPEED)
           = Z_OK"
  shows "write_tree env path tree domain files = (Undefined_behaviour, files, tree')"
proof -
  define L where "L = length leaves"
  have oks: "fst (compress2 env (compressBound env (length raw)) raw Z_BEST_SPEED) = Z_OK" for raw
    using ok by blast
  from fit have bound: "L \<le> 2147483647"
    by (simp add: INT_MAX_def L_def)
  have np: "wrap (int L * 8) < 0"
    using over wrap_above [of "int L * 8"] by (simp add: L_def)
  have type: "at_index vtk_types 3 = Some 12"
    by (simp add: at_index_def vtk_types_def eval_nat_numeral)
  have types: "write_tree_types env s 3 (int L) =
      (Done, s @ array_element env int8_t ''Int8'' ''types'' 1 (map (\<lambda>i. [12]) [0 ..< L]))" for s
  proof -
    have "write_tree_types env s 3 (int L) =
        write_array env int8_t ''Int8'' ''types'' 1 (map (\<lambda>i. [12]) [0 ..< L]) s"
      using write_tree_types_closed [OF type, of "int L" env s] by simp
    also have "\<dots> = (Done, s @ array_element env int8_t ''Int8'' ''types'' 1 (map (\<lambda>i. [12]) [0 ..< L]))"
      using bound by (intro write_array_text int8_repr oks)
        (simp add: length_concat_singletons int8_t_def)
    finally show ?thesis .
  qed
  have offsets: "write_tree_offsets env s (int L) 8 =
      (Done, s @ array_element env int32_t ''Int32'' ''offsets'' 1
         (map (\<lambda>k. [wrap ((int k + 1) * 8)]) [0 ..< L]))" for s
  proof -
    have "write_tree_offsets env s (int L) 8 =
        write_array env int32_t ''Int32'' ''offsets'' 1
          (map (\<lambda>k. [wrap ((int k + 1) * 8)]) [0 ..< L]) s"
      using write_tree_offsets_wrapped [of "int L" 8 env s]
      by (simp add: fits_int_def INT_MIN_def INT_MAX_def)
    also have "\<dots> = (Done, s @ array_element env int32_t ''Int32'' ''offsets'' 1
         (map (\<lambda>k. [wrap ((int k + 1) * 8)]) [0 ..< L]))"
      using bound by (intro write_array_text int32_repr oks)
        (simp add: length_concat_singletons int32_t_def)
    finally show ?thesis .
  qed
  have connectivity: "write_tree_connectivity env s (wrap (int L * 8)) = (Undefined_behaviour, s)"
    for s
    using np by (simp add: write_tree_connectivity_def)
  show ?thesis
    unfolding write_tree_def Let_def collect
    by (simp add: d L_def [symmetric] leaves_wrap [OF fit, folded L_def] ipow_def and_then_def
        emit_def types offsets connectivity)
qed

subsection \<open>Coordinate generation\<close>

lemma write_coordinate_closed:
  assumes "basis_p block = 0 \<or> basis_p block = 1 \<or> basis_p block = 2"
    and "0 \<le> vec_nth (extents (cell_grid block)) axis"
    and "(basis_p block + 1) * vec_nth (extents (cell_grid block)) axis + 1 \<le> INT_MAX"
  shows "write_coordinate env stream block axis =
     write_array env (float_t env) ''Float32'' (axis_name axis) 1
       (map (\<lambda>i. [float_of_double env (coordinate_point env block axis (int i))])
          [0 ..< nat ((basis_p block + 1) * vec_nth (extents (cell_grid block)) axis + 1)])
       stream"
proof -
  define p where "p = basis_p block"
  define n where "n = vec_nth (extents (cell_grid block)) axis"
  define num_pts where "num_pts = (p + 1) * n + 1"
  define o' where "o' = vec_nth (lower (block_domain block)) axis"
  define dx' where "dx' = double_div env (vec_nth (block_dx block) axis) (double_of_int env (p + 1))"
  from assms(1) have w: "wrap (p + 1) = p + 1"
    by (auto simp add: wrap_small p_def)
  from assms have "wrap (wrap (wrap (p + 1) * n) + 1) = num_pts"
    unfolding p_def n_def num_pts_def by (intro num_pts_fits) auto
  then have np: "wrap (wrap ((p + 1) * n) + 1) = num_pts"
    by (simp only: w)
  from assms have pos: "0 \<le> num_pts"
    by (auto simp add: num_pts_def p_def n_def)
  have rows: "point_row env p o' dx' = (\<lambda>i. [float_of_double env (coordinate_point env block axis (int i))])"
    by (simp add: point_row_def coordinate_point_def fun_eq_iff p_def o'_def dx'_def Let_def)
  have "coordinate_loop env p o' dx' 0 num_pts (resize (float_t env) (nat num_pts) 1) =
      Some (filled (float_t env) (nat num_pts) 1 (point_row env p o' dx') (nat num_pts))"
    using assms(1) pos by (intro coordinate_loop_filled) (simp_all add: filled_0 p_def)
  moreover from pos have "\<not> num_pts < 0" by simp
  ultimately have "write_coordinate env stream block axis =
      in_sequence
        [emit (\<lambda>stream. write_data_start stream ''Float32'' (axis_name axis) (int 1)),
         (\<lambda>stream. write_data env (float_t env) stream
            (filled (float_t env) (nat num_pts) 1 (point_row env p o' dx') (nat num_pts)) False),
         emit write_data_end] stream"
    unfolding write_coordinate_def Let_def p_def [symmetric] n_def [symmetric]
    by (simp add: w np o'_def [symmetric] dx'_def [symmetric])
  then show ?thesis
    unfolding write_array_filled rows by (simp add: num_pts_def p_def n_def)
qed

lemma write_coordinate_outside_table:
  assumes "2 < basis_p block" and "0 \<le> vec_nth (extents (cell_grid block)) axis"
    and "(basis_p block + 1) * vec_nth (extents (cell_grid block)) axis + 1 \<le> INT_MAX"
  shows "write_coordinate env stream block axis = (Undefined_behaviour, stream)"
proof -
  define p where "p = basis_p block"
  define n where "n = vec_nth (extents (cell_grid block)) axis"
  define num_pts where "num_pts = wrap (wrap (wrap (p + 1) * n) + 1)"
  from assms have "num_pts = (p + 1) * n + 1"
    using num_pts_fits [of p n] by (simp add: p_def n_def num_pts_def)
  moreover from assms have "0 \<le> (p + 1) * n"
    by (simp add: p_def n_def)
  ultimately have pos: "0 < num_pts"
    by simp
  from assms have "at_index (offset env) p = None"
    by (simp add: at_index_def offset_rows p_def)
  with pos have "coordinate_loop env p o' dx' 0 num_pts coord = None" for o' dx' coord
    by (subst coordinate_loop.simps) simp
  with pos show ?thesis
    unfolding write_coordinate_def Let_def p_def [symmetric] n_def [symmetric]
      num_pts_def [symmetric]
    by simp
qed

lemma write_coordinate_status:
  "fst (write_coordinate env stream block axis)
     \<in> {Done, Undefined_behaviour, Runtime_error ''vtk - zlib error''}"
proof -
  have "fst (in_sequence
        [emit (\<lambda>stream. write_data_start stream ''Float32'' (axis_name axis) 1),
         (\<lambda>stream. write_data env (float_t env) stream coord False),
         emit write_data_end] stream) \<in> {Done, Runtime_error ''vtk - zlib error''}" for coord
  proof -
    obtain st out where w: "write_data env (float_t env)
        (write_data_start stream ''Float32'' (axis_name axis) 1) coord False = (st, out)"
      by fastforce
    with write_data_status [of env "float_t env"
        "write_data_start stream ''Float32'' (axis_name axis) 1" coord False]
    have "st = Done \<or> st = Runtime_error ''vtk - zlib error''" by simp
    with w show ?thesis
      by (auto simp add: and_then_emit and_then_def emit_def)
  qed
  then show ?thesis
    unfolding write_coordinate_def Let_def
    by (auto split: option.splits)
qed

subsection \<open>Base64 and the header read back\<close>

lemma sextet_table:
  "list_all (\<lambda>n. sextet (base64_char n) = Some n \<and> base64_char n \<noteq> CHR ''=''
      \<and> base64_char n \<noteq> CHR ''\<newline>'') [0 ..< 64]"
  by code_simp

lemma sextet_base64_char: "n < 64 \<Longrightarrow> sextet (base64_char n) = Some n"
  using sextet_table by (simp add: list_all_iff)

lemma base64_char_not_pad: "n < 64 \<Longrightarrow> base64_char n \<noteq> CHR ''=''"
  using sextet_table by (simp add: list_all_iff)

lemma base64_char_not_newline: "n < 64 \<Longrightarrow> base64_char n \<noteq> CHR ''\<newline>''"
  using sextet_table by (simp add: list_all_iff)

lemma newline_not_base64_char: "n < 64 \<Longrightarrow> CHR ''\<newline>'' \<noteq> base64_char n"
  using base64_char_not_newline [of n] by auto

lemma decode_encode_octets:
  "\<forall>a \<in> set octets. a < 256 \<Longrightarrow> decode_sextets (encode_octets octets) = Some octets"
proof (induction octets rule: encode_octets.induct)
  case 1
  then show ?case by simp
next
  case (2 a)
  then have "a div 4 < 64" "a mod 4 * 16 < 64" "a div 4 * 4 + (a mod 4 * 16) div 16 = a"
    by simp_all
  then show ?case
    by (simp add: sextet_base64_char base64_char_not_pad)
next
  case (3 a b)
  then have "a div 4 < 64" "a mod 4 * 16 + b div 16 < 64" "b mod 16 * 4 < 64"
    "a div 4 * 4 + (a mod 4 * 16 + b div 16) div 16 = a"
    "(a mod 4 * 16 + b div 16) mod 16 * 16 + (b mod 16 * 4) div 4 = b"
    by auto
  then show ?case
    by (simp add: sextet_base64_char base64_char_not_pad)
next
  case (4 a b c rest)
  then have "a div 4 < 64" "a mod 4 * 16 + b div 16 < 64" "b mod 16 * 4 + c div 64 < 64"
    "c mod 64 < 64"
    "a div 4 * 4 + (a mod 4 * 16 + b div 16) div 16 = a"
    "(a mod 4 * 16 + b div 16) mod 16 * 16 + (b mod 16 * 4 + c div 64) div 4 = b"
    "(b mod 16 * 4 + c div 64) mod 4 * 64 + c mod 64 = c"
    by auto
  moreover from 4 have "decode_sextets (encode_octets rest) = Some rest"
    by simp
  ultimately show ?case
    by (simp add: sextet_base64_char base64_char_not_pad)
qed

lemma octets_of_bytes: "\<forall>a \<in> set (map unat (bytes :: byte list)). a < 256"
  using unsigned_less [where 'b = 8] by auto

lemma base64_decode_encode: "base64_decode (base64_encode bytes) = Some bytes"
  by (simp add: base64_decode_def base64_encode_def decode_encode_octets octets_of_bytes comp_def)

lemma length_encode_octets: "length (encode_octets octets) = 4 * ((length octets + 2) div 3)"
proof (induction octets rule: encode_octets.induct)
  case (4 a b c rest)
  have "(length (a # b # c # rest) + 2) div 3 = Suc ((length rest + 2) div 3)"
    by simp
  with 4 show ?case by simp
qed simp_all

lemma length_base64_encode: "length (base64_encode bytes) = 4 * ((length bytes + 2) div 3)"
  by (simp add: base64_encode_def length_encode_octets)

lemma encode_octets_no_newline:
  "\<forall>a \<in> set octets. a < 256 \<Longrightarrow> CHR ''\<newline>'' \<notin> set (encode_octets octets)"
proof (induction octets rule: encode_octets.induct)
  case 1
  then show ?case by simp
next
  case (2 a)
  then have "a div 4 < 64" "a mod 4 * 16 < 64" by simp_all
  then show ?case
    by (simp add: newline_not_base64_char)
next
  case (3 a b)
  then have "a div 4 < 64" "a mod 4 * 16 + b div 16 < 64" "b mod 16 * 4 < 64"
    by auto
  then show ?case
    by (simp add: newline_not_base64_char)
next
  case (4 a b c rest)
  then have "a div 4 < 64" "a mod 4 * 16 + b div 16 < 64" "b mod 16 * 4 + c div 64 < 64"
    "c mod 64 < 64"
    by auto
  moreover from 4 have "CHR ''\<newline>'' \<notin> set (encode_octets rest)"
    by simp
  ultimately show ?case
    by (simp add: newline_not_base64_char)
qed

lemma base64_encode_no_newline: "CHR ''\<newline>'' \<notin> set (base64_encode bytes)"
  by (simp add: base64_encode_def encode_octets_no_newline octets_of_bytes)

lemma digits_sum: "(\<Sum>k = 0 ..< m. n div 256 ^ k mod 256 * 256 ^ k) = n mod 256 ^ m" for n :: nat
proof (induction m)
  case 0
  then show ?case by simp
next
  case (Suc m)
  have "n mod 256 ^ Suc m = n mod (256 ^ m * 256)"
    by (simp add: mult.commute)
  also have "\<dots> = 256 ^ m * (n div 256 ^ m mod 256) + n mod 256 ^ m"
    by (rule mod_mult2_eq)
  finally show ?case
    using Suc by simp
qed

lemma horner_le_bytes: "horner_sum unat 256 (le_bytes m n) = n mod 256 ^ m"
proof -
  have "unat (word_of_nat (n div 256 ^ k mod 256) :: byte) = n div 256 ^ k mod 256" for k
    by (simp add: unat_of_nat)
  then show ?thesis
    by (simp add: horner_sum_eq_sum le_bytes_def digits_sum)
qed

lemma u64_of_bytes_u64_bytes: "u64_of_bytes (u64_bytes w) = w"
proof -
  have "unat w < 256 ^ 8"
    using unsigned_less [of w] by simp
  then show ?thesis
    by (simp add: u64_of_bytes_def u64_bytes_def horner_le_bytes)
qed

lemma header_fields:
  "take 8 (u64_bytes a @ u64_bytes b @ u64_bytes c @ u64_bytes d) = u64_bytes a"
  "take 8 (drop 8 (u64_bytes a @ u64_bytes b @ u64_bytes c @ u64_bytes d)) = u64_bytes b"
  "take 8 (drop 16 (u64_bytes a @ u64_bytes b @ u64_bytes c @ u64_bytes d)) = u64_bytes c"
  "take 8 (drop 24 (u64_bytes a @ u64_bytes b @ u64_bytes c @ u64_bytes d)) = u64_bytes d"
  by (simp_all add: length_u64_bytes)

lemma vtk_decode_encoded:
  assumes "length raw < 2 ^ 64" and "length compressed < 2 ^ 64"
    and "inflate compressed = Some raw"
  shows "vtk_decode inflate
           (base64_encode (concat (map u64_bytes
               [1, word_of_nat (length raw), word_of_nat (length raw),
                word_of_nat (length compressed)]))
            @ base64_encode compressed @ ''\<newline>'' @ rest) = Some raw"
proof -
  define header where "header = u64_bytes 1 @ u64_bytes (word_of_nat (length raw))
      @ u64_bytes (word_of_nat (length raw)) @ u64_bytes (word_of_nat (length compressed))"
  have len: "length (base64_encode header) = 44"
    by (simp add: length_base64_encode header_def length_u64_bytes)
  have payload: "takeWhile (\<lambda>c. c \<noteq> CHR ''\<newline>'') (base64_encode compressed @ ''\<newline>'' @ rest)
      = base64_encode compressed"
    using base64_encode_no_newline [of compressed]
    by (simp add: takeWhile_append)
  have sizes: "unat (word_of_nat (length raw) :: 64 word) = length raw"
    "unat (word_of_nat (length compressed) :: 64 word) = length compressed"
    using assms(1,2) by (simp_all add: unat_of_nat)
  have "vtk_decode inflate (base64_encode header @ base64_encode compressed @ ''\<newline>'' @ rest)
      = Some raw"
    unfolding vtk_decode_def
    using len payload assms(3)
    by (simp add: base64_decode_encode Let_def)
      (simp add: header_def header_fields u64_of_bytes_u64_bytes length_u64_bytes sizes)
  then show ?thesis
    by (simp add: header_def)
qed

subsection \<open>The manifest loop\<close>

lemma write_vtm_loop_refs:
  \<open>0 \<le> i \<Longrightarrow>
   write_vtm_loop prefix i nblocks stream =
     stream @ concat (map (\<lambda>k. ''<DataSet index="'' @ decimal k @ ''" file="''
                               @ (prefix @ decimal k @ ''.vtr'') @ ''"/>\<newline>'')
                       [nat i ..< nat nblocks])\<close>
proof (induction prefix i nblocks stream rule: write_vtm_loop.induct)
  case (1 prefix i nblocks stream)
  show ?case
  proof (cases "i < nblocks")
    case True
    with "1.prems" have range: "[nat i ..< nat nblocks] = nat i # [nat (i + 1) ..< nat nblocks]"
      by (simp add: upt_conv_Cons nat_add_distrib)
    from True "1.prems" have \<open>write_vtm_loop prefix i nblocks stream =
        write_vtm_source_file stream i (prefix @ to_string i @ ''.vtr'') @
        concat (map (\<lambda>k. ''<DataSet index="'' @ decimal k @ ''" file="''
                          @ (prefix @ decimal k @ ''.vtr'') @ ''"/>\<newline>'')
                 [nat (i + 1) ..< nat nblocks])\<close>
      using "1.IH" [OF True] by (subst write_vtm_loop.simps) simp
    with "1.prems" show ?thesis
      by (simp add: range write_vtm_source_file_def to_string_def)
  next
    case False
    then show ?thesis
      by (subst write_vtm_loop.simps) simp
  qed
qed

subsection \<open>Further lemmas for the claims\<close>

lemma int32_object_bytes: "length (object_bytes int32_t v) = sizeof int32_t"
  by (simp add: int32_t_def length_le_bytes)

lemma small_view_bytes: "host_bytes stored int32_t small_view = [1, 0, 0, 0, 2, 0, 0, 0]"
  by (simp add: host_bytes_def stored_def small_view_def int32_t_def le_bytes_def upt_rec)

lemma small_header:
  "base64_encode (u64_bytes 1 @ u64_bytes 8 @ u64_bytes 8 @ u64_bytes 8)
     = ''AQAAAAAAAAAIAAAAAAAAAAgAAAAAAAAACAAAAAAAAAA=''"
  by (simp add: u64_bytes_def le_bytes_def upt_rec base64_encode_def base64_char_def base64_chars_def)

lemma small_payload: "base64_encode [1, 0, 0, 0, 2, 0, 0, 0] = ''AQAAAAIAAAA=''"
  by (simp add: base64_encode_def base64_char_def base64_chars_def)

lemma to_string_0: "to_string 0 = ''0''"
  by (simp add: to_string_def decimal.simps digit_chars_def)

lemma transpose_column_rows: "concat (transpose (map (\<lambda>v. [v]) vs)) = vs"
proof (cases "vs = []")
  case True
  then show ?thesis by simp
next
  case False
  have "transpose (map (\<lambda>v. [v]) vs) =
      map (\<lambda>i. map (\<lambda>j. map (\<lambda>v. [v]) vs ! j ! i) [0 ..< length (map (\<lambda>v. [v]) vs)]) [0 ..< 1]"
    using False by (intro transpose_rectangle) simp_all
  also have "\<dots> = [map (\<lambda>j. vs ! j) [0 ..< length vs]]"
    by simp
  also have "\<dots> = [vs]"
    by (simp add: map_nth)
  finally show ?thesis by simp
qed

lemma in_memory_column: "in_memory lay (map (\<lambda>v. [v]) vs) = vs"
proof (cases lay)
  case LayoutRight
  then show ?thesis by (induction vs) simp_all
next
  case LayoutLeft
  then show ?thesis by (simp add: transpose_column_rows)
qed

lemma host_bytes_column:
  "host_bytes env T ((resize T n m)\<lparr>h_view := map (\<lambda>v. [v]) vs\<rparr>) = concat (map (object_bytes T) vs)"
  by (simp add: host_bytes_def in_memory_column)

lemma stored_succeeds:
  "\<forall>source. fst (compress2 stored (compressBound stored (length source)) source Z_BEST_SPEED)
     = Z_OK"
  by (simp add: stored_def)

lemma failing_fails:
  "\<forall>capacity source. fst (compress2 failing capacity source Z_BEST_SPEED) \<noteq> Z_OK"
  by (simp add: failing_def stored_def Z_OK_def)

section \<open>The claims\<close>

text \<open>
  C1. Let \<open>raw\<close> be the bytes of the host copy of an array (after the synchronisation
  that \<open>copy\<close> asks for), fewer than \<open>2\<^sup>6\<^sup>4\<close> of them, and let zlib deflate them at
  \<^verbatim>\<open>Z_BEST_SPEED\<close> to \<open>compressed\<close>. Then \<^const>\<open>write_data\<close> appends to the
  stream exactly the base64 of the 32-byte header of the four 64-bit integers 1, the
  number of raw bytes, the number of raw bytes and the number of compressed bytes,
  directly followed by the base64 of the compressed bytes and one newline.
\<close>

theorem write_data_encoding:
  assumes "\<forall>v. length (object_bytes T v) = sizeof T"
    and "raw = host_bytes env T (if copy then sync_host dual else dual)"
    and "length raw < 2 ^ 64"
    and "compress2 env (compressBound env (length raw)) raw Z_BEST_SPEED = (Z_OK, compressed)"
    and "header = [1, word_of_nat (length raw), word_of_nat (length raw),
                   word_of_nat (length compressed)]"
  shows "write_data env T stream dual copy =
           (Done, stream @ base64_encode (concat (map u64_bytes header))
                    @ base64_encode compressed @ ''\<newline>'')
         \<and> length (concat (map u64_bytes header)) = 32"
  using assms by (simp add: write_data_result length_u64_bytes)

theorem write_data_encoding_witness:
  "write_data stored int32_t [] small_view False =
     (Done, ''AQAAAAAAAAAIAAAAAAAAAAgAAAAAAAAACAAAAAAAAAA=AQAAAAIAAAA=\<newline>'')
   \<and> length (concat (map u64_bytes [1, 8, 8, 8])) = 32"
proof -
  define raw :: "byte list" where "raw = [1, 0, 0, 0, 2, 0, 0, 0]"
  have h1: "\<forall>v. length (object_bytes int32_t v) = sizeof int32_t"
    by (simp add: int32_object_bytes)
  have h2: "raw = host_bytes stored int32_t (if False then sync_host small_view else small_view)"
    by (simp add: small_view_bytes raw_def)
  have h3: "length raw < 2 ^ 64"
    by (simp add: raw_def)
  have h4: "compress2 stored (compressBound stored (length raw)) raw Z_BEST_SPEED = (Z_OK, raw)"
    by (simp add: stored_def)
  have h5: "[1, 8, 8, 8] = [1, word_of_nat (length raw), word_of_nat (length raw),
      word_of_nat (length raw) :: 64 word]"
    by (simp add: raw_def)
  from write_data_encoding [OF h1 h2 h3 h4 h5, of "[]"] show ?thesis
    by (simp add: small_header small_payload raw_def)
qed

text \<open>
  C2. Under the conditions of C1, whenever the inflater gives back \<open>raw\<close> for the
  compressed bytes that zlib produced (and they are fewer than \<open>2\<^sup>6\<^sup>4\<close>),
  \<^const>\<open>write_data\<close> succeeds and reading back what it appended (base64-decoding the
  44 characters of the header, then the payload up to the newline, and inflating the
  payload) gives \<open>raw\<close> exactly. This holds for every buffer, the empty one included.
\<close>

theorem write_data_round_trip:
  assumes "\<forall>v. length (object_bytes T v) = sizeof T"
    and "raw = host_bytes env T (if copy then sync_host dual else dual)"
    and "length raw < 2 ^ 64"
    and "compress2 env (compressBound env (length raw)) raw Z_BEST_SPEED = (Z_OK, compressed)"
    and "length compressed < 2 ^ 64"
    and "inflate compressed = Some raw"
  shows "fst (write_data env T stream dual copy) = Done
         \<and> vtk_decode inflate (drop (length stream) (snd (write_data env T stream dual copy)))
             = Some raw"
proof -
  have "write_data env T stream dual copy =
      (Done, stream
         @ base64_encode (concat (map u64_bytes
             [1, word_of_nat (length raw), word_of_nat (length raw),
              word_of_nat (length compressed)]))
         @ base64_encode compressed @ ''\<newline>'')"
    using assms(1-4) by (simp add: write_data_result)
  moreover have "vtk_decode inflate
      (base64_encode (concat (map u64_bytes
           [1, word_of_nat (length raw), word_of_nat (length raw),
            word_of_nat (length compressed)]))
         @ base64_encode compressed @ ''\<newline>'' @ []) = Some raw"
    using assms(3,5,6) by (rule vtk_decode_encoded)
  ultimately show ?thesis
    by simp
qed

theorem write_data_round_trip_witness:
  "fst (write_data stored int32_t [] (resize int32_t 0 1) False) = Done
   \<and> vtk_decode Some (snd (write_data stored int32_t [] (resize int32_t 0 1) False)) = Some []
   \<and> fst (write_data stored int32_t [] small_view False) = Done
   \<and> vtk_decode Some (snd (write_data stored int32_t [] small_view False))
       = Some [1, 0, 0, 0, 2, 0, 0, 0]"
proof -
  have repr: "\<forall>v. length (object_bytes int32_t v) = sizeof int32_t"
    by (simp add: int32_object_bytes)
  have stores: "compress2 stored (compressBound stored (length raw)) raw Z_BEST_SPEED = (Z_OK, raw)"
    for raw
    by (simp add: stored_def)
  have e: "[] = host_bytes stored int32_t
      (if False then sync_host (resize int32_t 0 1) else resize int32_t 0 1)"
    by (simp add: host_bytes_def stored_def resize_def)
  have s: "[1, 0, 0, 0, 2, 0, 0, 0] = host_bytes stored int32_t
      (if False then sync_host small_view else small_view)"
    by (simp add: small_view_bytes)
  have "length ([] :: byte list) < 2 ^ 64" "length [1, 0, 0, 0, 2, 0, 0, 0 :: byte] < 2 ^ 64"
    by simp_all
  then show ?thesis
    using write_data_round_trip [of int32_t "[]" stored False "resize int32_t 0 1" "[]" Some "[]",
        OF repr e _ stores]
      write_data_round_trip [of int32_t "[1, 0, 0, 0, 2, 0, 0, 0]" stored False small_view
        "[1, 0, 0, 0, 2, 0, 0, 0]" Some "[]", OF repr s _ stores]
    by simp
qed

text \<open>
  C3 (as the code has it). \<^const>\<open>write_coordinate\<close> has no check of the degree. For a
  degree above 2 and a non-negative number of cells whose number of points fits an
  \<^verbatim>\<open>int\<close>, generating the first point reads \<^verbatim>\<open>offset[p][0]\<close> outside the table, which is
  undefined behaviour and not an exception, and this happens before anything of the
  axis is written. Whatever the block, if \<^const>\<open>write_coordinate\<close> throws, it throws the
  compression error of the encoder.
\<close>

theorem write_coordinate_no_degree_check:
  "(2 < basis_p block \<and> 0 \<le> vec_nth (extents (cell_grid block)) axis
      \<and> (basis_p block + 1) * vec_nth (extents (cell_grid block)) axis + 1 \<le> INT_MAX \<longrightarrow>
      write_coordinate env stream block axis = (Undefined_behaviour, stream))
   \<and> (raises (fst (write_coordinate env stream block axis)) \<longrightarrow>
      fst (write_coordinate env stream block axis) = Runtime_error ''vtk - zlib error'')"
proof -
  have "fst (write_coordinate env stream block axis) = Runtime_error ''vtk - zlib error''"
    if "raises (fst (write_coordinate env stream block axis))"
    using that write_coordinate_status [of env stream block axis]
    by (cases "fst (write_coordinate env stream block axis)") simp_all
  then show ?thesis
    by (simp add: write_coordinate_outside_table)
qed

theorem write_coordinate_no_degree_check_witness:
  "write_coordinate stored ''<Coordinates>'' (block_of_degree 3) Y
     = (Undefined_behaviour, ''<Coordinates>'')
   \<and> fst (write_coordinate failing [] (block_of_degree 2) X) = Runtime_error ''vtk - zlib error''"
proof -
  have "write_coordinate failing [] (block_of_degree 2) X =
      write_array failing (float_t failing) ''Float32'' (axis_name X) 1
        (map (\<lambda>i. [float_of_double failing (coordinate_point failing (block_of_degree 2) X (int i))])
          [0 ..< nat ((basis_p (block_of_degree 2) + 1)
             * vec_nth (extents (cell_grid (block_of_degree 2))) X + 1)]) []"
    by (rule write_coordinate_closed) (simp_all add: block_of_degree_def INT_MAX_def)
  then have "raises (fst (write_coordinate failing [] (block_of_degree 2) X))"
    by (simp add: write_array_failing [OF failing_fails])
  with write_coordinate_no_degree_check [of "block_of_degree 3" Y stored "''<Coordinates>''"]
    write_coordinate_no_degree_check [of "block_of_degree 2" X failing "[]"]
  show ?thesis
    by (simp add: block_of_degree_def INT_MAX_def)
qed

text \<open>
  C3 (as the specification words it) fails: for a block of degree 3, coordinate
  generation along the first axis raises no error.
\<close>

theorem write_coordinate_degree_3_counterexample:
  "write_coordinate stored [] (block_of_degree 3) X = (Undefined_behaviour, [])
   \<and> \<not> raises (fst (write_coordinate stored [] (block_of_degree 3) X))"
proof -
  have "write_coordinate stored [] (block_of_degree 3) X = (Undefined_behaviour, [])"
    by (rule write_coordinate_outside_table) (simp_all add: block_of_degree_def INT_MAX_def)
  then show ?thesis by simp
qed

text \<open>
  C4 (as the code has it). For a block of degree \<open>p \<in> {0, 1, 2}\<close> with \<open>n \<ge> 0\<close> cells
  along the axis, such that \<open>(p+1) * n + 1\<close> fits an \<^verbatim>\<open>int\<close>, with floats of four bytes
  and a compression that succeeds, \<^const>\<open>write_coordinate\<close> appends the \<^verbatim>\<open>Float32\<close>
  array element whose encoded entries are exactly the \<open>(p+1) * n + 1\<close> values
  \<open>lo + i * spacing + offsetTable[p][i mod (p+1)] * spacing\<close> for \<open>i = 0, 1, \<dots>\<close>, each
  computed in double precision and then converted to float, with \<open>spacing\<close> the block
  spacing divided by \<open>p + 1\<close>. The
  table \<^const>\<open>offset\<close> of the code has the rows of the specification: zero for the
  degrees 0 and 1, and 0, \<open>-2/9\<close>, \<open>2/9\<close> for the degree 2.
\<close>

theorem coordinate_array_entries:
  assumes "p = basis_p block" and "p = 0 \<or> p = 1 \<or> p = 2"
    and "n = vec_nth (extents (cell_grid block)) axis" and "0 \<le> n"
    and "(p + 1) * n + 1 \<le> INT_MAX"
    and "lo = vec_nth (lower (block_domain block)) axis"
    and "spacing = double_div env (vec_nth (block_dx block) axis) (double_of_int env (p + 1))"
    and "sizeof (float_t env) = 4" and "\<forall>v. length (object_bytes (float_t env) v) = 4"
    and "coord = map (\<lambda>i. [float_of_double env
            (double_add env (double_add env lo (double_mul env (double_of_int env (int i)) spacing))
               (double_mul env (offsetTable env p (int i mod (p + 1))) spacing))])
          [0 ..< nat ((p + 1) * n + 1)]"
    and "fst (compress2 env (compressBound env (length (array_bytes env (float_t env) coord)))
               (array_bytes env (float_t env) coord) Z_BEST_SPEED) = Z_OK"
  shows "write_coordinate env stream block axis =
           (Done, stream @ array_element env (float_t env) ''Float32'' (axis_name axis) 1 coord)
         \<and> offset env =
             [[double_of_int env 0, double_of_int env 0, double_of_int env 0],
              [double_of_int env 0, double_of_int env 0, double_of_int env 0],
              [double_of_int env 0,
               double_div env (double_neg env (double_of_int env 2)) (double_of_int env 9),
               double_div env (double_of_int env 2) (double_of_int env 9)]]"
proof -
  have rows: "coord = map (\<lambda>i. [float_of_double env (coordinate_point env block axis (int i))])
      [0 ..< nat ((basis_p block + 1) * vec_nth (extents (cell_grid block)) axis + 1)]"
    using assms(1,3,6,7,10) by (simp add: coordinate_point_def Let_def)
  have closed: "write_coordinate env stream block axis =
      write_array env (float_t env) ''Float32'' (axis_name axis) 1 coord stream"
    unfolding rows using assms(1-5) by (intro write_coordinate_closed) simp_all
  from assms(2,4) have pos: "0 \<le> (p + 1) * n + 1"
    by auto
  have count: "length (concat coord) = nat ((p + 1) * n + 1)"
    by (simp add: assms(10) length_concat_singletons)
  from assms(5) pos have "nat ((p + 1) * n + 1) \<le> 2147483647"
    by (simp add: INT_MAX_def)
  then have small: "sizeof (float_t env) * length (concat coord) < 2 ^ 64"
    by (simp add: count assms(8))
  have repr: "\<forall>v. length (object_bytes (float_t env) v) = sizeof (float_t env)"
    using assms(8,9) by simp
  have "write_coordinate env stream block axis =
      (Done, stream @ array_element env (float_t env) ''Float32'' (axis_name axis) 1 coord)"
    unfolding closed using repr small assms(11) by (rule write_array_text)
  then show ?thesis
    by (simp add: offset_rows)
qed

theorem coordinate_array_entries_witness:
  \<open>write_coordinate stored [] (block_of_degree 2) X =
     (Done, ''<DataArray type="Float32" Name="x" NumberOfComponents="1" format="binary">\<newline>''
        @ base64_encode (concat (map u64_bytes [1, 28, 28, 28]))
        @ base64_encode
            [0, 0, 0, 0,  28, 3, 0, 0,  228, 8, 0, 0,  0, 12, 0, 0,  28, 15, 0, 0,  228, 20, 0, 0,
             0, 24, 0, 0]
        @ ''\<newline></DataArray>\<newline>'')
   \<and> map (float_of_double stored) [0, 7 / 9, 20 / 9, 3, 34 / 9, 47 / 9, 6]
       = [0, 199 / 256, 569 / 256, 3, 967 / 256, 1337 / 256, 6]\<close>
proof -
  define coord :: "real list list"
    where "coord = [[0], [199 / 256], [569 / 256], [3], [967 / 256], [1337 / 256], [6]]"
  have rows: "coord = map (\<lambda>i. [float_of_double stored
            (double_add stored (double_add stored 0 (double_mul stored (double_of_int stored (int i)) 1))
               (double_mul stored (offsetTable stored 2 (int i mod (2 + 1))) 1))])
          [0 ..< nat ((2 + 1) * 2 + 1)]"
    by (simp add: coord_def stored_def offsetTable_def upt_rec)
  have bytes: "array_bytes stored (float_t stored) coord =
      [0, 0, 0, 0,  28, 3, 0, 0,  228, 8, 0, 0,  0, 12, 0, 0,  28, 15, 0, 0,  228, 20, 0, 0,
       0, 24, 0, 0]"
    by (simp add: array_bytes_def coord_def stored_def real_t_def le_bytes_def upt_rec)
  have h: "2 = basis_p (block_of_degree 2)" "(2::int) = 0 \<or> (2::int) = 1 \<or> (2::int) = 2"
    "2 = vec_nth (extents (cell_grid (block_of_degree 2))) X" "(0::int) \<le> 2"
    "(2 + 1) * 2 + 1 \<le> INT_MAX"
    "0 = vec_nth (lower (block_domain (block_of_degree 2))) X"
    "1 = double_div stored (vec_nth (block_dx (block_of_degree 2)) X) (double_of_int stored (2 + 1))"
    "sizeof (float_t stored) = 4" "\<forall>v. length (object_bytes (float_t stored) v) = 4"
    by (simp_all add: block_of_degree_def unit_box_def stored_def real_t_def length_le_bytes
        INT_MAX_def)
  have z: "fst (compress2 stored (compressBound stored (length (array_bytes stored (float_t stored) coord)))
      (array_bytes stored (float_t stored) coord) Z_BEST_SPEED) = Z_OK"
    by (simp add: stored_def)
  have d: "deflated stored raw = raw" for raw
    by (simp add: deflated_def stored_def)
  have "map (float_of_double stored) [0, 7 / 9, 20 / 9, 3, 34 / 9, 47 / 9, 6]
      = [0, 199 / 256, 569 / 256, 3, 967 / 256, 1337 / 256, 6]"
    by (simp add: stored_def)
  with coordinate_array_entries [OF h rows z, of "[]"] show ?thesis
    by (simp add: array_element_def encoded_def bytes d decimal.simps digit_chars_def)
qed

text \<open>
  C4 (as the specification words it) fails: the entries are not the values of the
  formula but their conversions to float. For the block of degree 2 with two cells
  along the first axis, lower bound 0 and spacing 3, \<^const>\<open>write_coordinate\<close> runs its
  loop for the degree 2, the lower bound 0, the point spacing \<open>3 / 3 = 1\<close> and 7 points;
  the entry that the loop stores for the point 1 is \<open>199/256\<close>, and the formula gives
  \<open>7/9\<close>. And for the block of degree 1 with \<open>2\<^sup>3\<^sup>0\<close> cells along the first axis the
  number of points \<open>2 * 2\<^sup>3\<^sup>0 + 1\<close> wraps around to a negative number, and no array of
  \<open>2\<^sup>3\<^sup>1 + 1\<close> entries is written.
\<close>

theorem coordinate_entry_not_exact_counterexample:
  "map_option h_view (coordinate_loop stored 2 0 1 0 7 (resize (float_t stored) 7 1))
     = Some [[0], [199 / 256], [569 / 256], [3], [967 / 256], [1337 / 256], [6]]
   \<and> [[coordinate_point stored (block_of_degree 2) X 0],
       [coordinate_point stored (block_of_degree 2) X 1],
       [coordinate_point stored (block_of_degree 2) X 2],
       [coordinate_point stored (block_of_degree 2) X 3],
       [coordinate_point stored (block_of_degree 2) X 4],
       [coordinate_point stored (block_of_degree 2) X 5],
       [coordinate_point stored (block_of_degree 2) X 6]]
     = [[0], [7 / 9], [20 / 9], [3], [34 / 9], [47 / 9], [6]]
   \<and> (199 / 256 :: real) \<noteq> 7 / 9
   \<and> write_coordinate stored [] wide_block X = (Undefined_behaviour, [])
   \<and> wrap (wrap (wrap (1 + 1) * 1073741824) + 1) = - 2147483647"
proof -
  have "coordinate_loop stored 2 0 1 0 7 (resize (float_t stored) (nat 7) 1) =
      Some (filled (float_t stored) (nat 7) 1 (point_row stored 2 0 1) (nat 7))"
    by (intro coordinate_loop_filled) (simp_all add: filled_0)
  moreover have "map (point_row stored 2 0 1) [0 ..< 7] =
      [[0], [199 / 256], [569 / 256], [3], [967 / 256], [1337 / 256], [6]]"
    by (simp add: point_row_def stored_def offsetTable_def upt_rec)
  ultimately have "map_option h_view (coordinate_loop stored 2 0 1 0 7 (resize (float_t stored) 7 1))
      = Some [[0], [199 / 256], [569 / 256], [3], [967 / 256], [1337 / 256], [6]]"
    by (simp add: filled_full)
  moreover have "write_coordinate stored [] wide_block X = (Undefined_behaviour, [])"
    by (simp add: write_coordinate_def wide_block_def block_of_degree_def wrap_def INT_MIN_def
        Let_def)
  moreover have "wrap (wrap (wrap (1 + 1) * 1073741824) + 1) = - 2147483647"
    by (simp add: wrap_def INT_MIN_def)
  ultimately show ?thesis
    by (simp add: coordinate_point_def block_of_degree_def unit_box_def stored_def offsetTable_def)
qed

text \<open>
  C5 (as the code has it). For every prefix and block count, \<^const>\<open>write_vtm\<close> appends to
  the stream the manifest that has one \<^verbatim>\<open>DataSet\<close> element for each
  \<open>i = 0, 1, \<dots>, nblocks - 1\<close>, in this order, with the index \<open>i\<close> and the file name
  \<open>prefix\<close> followed by the decimal \<open>i\<close> and the extension \<^verbatim>\<open>.vtr\<close>, and nothing else
  between the opening and the closing tags (no element when \<open>nblocks \<le> 0\<close>).
\<close>

theorem write_vtm_manifest:
  "write_vtm stream prefix nblocks =
     stream @ manifest_text (map (\<lambda>i. (i, prefix @ decimal i @ ''.vtr'')) [0 ..< nat nblocks])"
  by (simp add: write_vtm_def manifest_text_def write_vtm_loop_refs write_vtm_end_def
      write_vtm_header_def comp_def)

theorem write_vtm_manifest_witness:
  \<open>write_vtm [] ''out_'' 3 =
     ''<VTKFile type="vtkMultiBlockDataSet" version="1.0">\<newline><vtkMultiBlockDataSet>\<newline>''
       @ ''<DataSet index="0" file="out_0.vtr"/>\<newline>''
       @ ''<DataSet index="1" file="out_1.vtr"/>\<newline>''
       @ ''<DataSet index="2" file="out_2.vtr"/>\<newline>''
       @ ''</vtkMultiBlockDataSet>\<newline></VTKFile>''\<close>
  using write_vtm_manifest [of "[]" "''out_''" 3]
  by (simp add: manifest_text_def upt_rec decimal.simps digit_chars_def)

text \<open>
  C5 (as the specification words it) fails: with prefix \<^verbatim>\<open>out_\<close> and three blocks the
  files referenced are not \<^verbatim>\<open>out_0\<close>, \<^verbatim>\<open>out_1\<close>, \<^verbatim>\<open>out_2\<close>.
\<close>

theorem write_vtm_bare_names_counterexample:
  "write_vtm [] ''out_'' 3 \<noteq> manifest_text [(0, ''out_0''), (1, ''out_1''), (2, ''out_2'')]"
  by (simp add: write_vtm_def manifest_text_def write_vtm_loop_refs write_vtm_end_def
      write_vtm_header_def upt_rec decimal.simps digit_chars_def)

text \<open>
  C6. A tree export traverses the tree once: \<^const>\<open>write_tree\<close> returns the tree as one
  call of \<^verbatim>\<open>collect_leaves\<close> leaves it, and every array of the file it writes is derived
  from the leaves that this call returned, in their order. For a tree of dimension \<open>d\<close>
  from 0 to 3 with \<open>c = 2\<^sup>d\<close> corners for each cell, such that \<open>(L + 1) * c\<close> fits an
  \<^verbatim>\<open>int\<close> for the number \<open>L\<close> of leaves (the running offset of the cells reaches this
  value), with doubles of eight bytes and a zlib that succeeds whenever the buffer has
  the size that \<^verbatim>\<open>compressBound\<close> gives, the file holds, leaf by leaf in this one
  order, the \<open>c\<close> corners of the box of each leaf in \<open>coordinates\<close>, its depth in
  \<open>depth\<close> and its position in \<open>ijk\<close>; the connectivity numbers the points
  consecutively and the offsets are the multiples of \<open>c\<close>, so that cell \<open>i\<close> has the
  points \<open>i * c, \<dots>, (i + 1) * c - 1\<close>, which are the corners of the \<open>i\<close>-th leaf.
\<close>

theorem tree_arrays_same_leaf:
  assumes "0 \<le> tree_dim env tree'" and "tree_dim env tree' \<le> 3"
    and "collect_leaves env tree = (leaves, tree')"
    and "c = nat (ipow 2 (tree_dim env tree'))"
    and "(int (length leaves) + 1) * int c \<le> INT_MAX"
    and "\<forall>source. fst (compress2 env (compressBound env (length source)) source Z_BEST_SPEED)
           = Z_OK"
    and "sizeof (double_t env) = 8" and "\<forall>v. length (object_bytes (double_t env) v) = 8"
  shows "write_tree env path tree domain files =
     (Done,
      files(path @ ''.vtu'' \<mapsto>
        vtu_text (int (length leaves) * int c) (int (length leaves))
          (array_element env int8_t ''Int8'' ''types'' 1
             (map (\<lambda>i. [[1, 3, 9, 12] ! nat (tree_dim env tree')]) [0 ..< length leaves]))
          (array_element env int32_t ''Int32'' ''offsets'' 1
             (map (\<lambda>i. [(int i + 1) * int c]) [0 ..< length leaves]))
          (array_element env int32_t ''Int32'' ''connectivity'' 1
             (map (\<lambda>k. [int k]) [0 ..< length leaves * c]))
          (array_element env (double_t env) ''Float64'' ''coordinates'' 3
             (concat (map (\<lambda>leaf. map (corner_row env (tree_base env tree') domain leaf) [0 ..< c])
                leaves)))
          (array_element env int32_t ''Int32'' ''depth'' 1 (map (\<lambda>leaf. [depth (pt leaf)]) leaves))
          (array_element env int32_t ''Int32'' ''ijk'' 3
             (map (\<lambda>leaf. row_of (ijk (pt leaf))) leaves))),
      tree')"
proof -
  have "map (\<lambda>k. corner_row env (tree_base env tree') domain (leaves ! (k div c)) (k mod c))
        [0 ..< length leaves * c] =
      concat (map (\<lambda>leaf. map (corner_row env (tree_base env tree') domain leaf) [0 ..< c]) leaves)"
    by (rule rows_leaf_major)
  with write_tree_text [OF assms, of path domain files] show ?thesis
    by simp
qed

theorem tree_arrays_same_leaf_witness:
  "write_tree stored ''tree'' (rev two_leaves, 0) (unit_box (vector3 0 0 0)) Map.empty =
     (Done,
      [''tree.vtu'' \<mapsto>
        vtu_text 16 2
          (array_element stored int8_t ''Int8'' ''types'' 1 [[12], [12]])
          (array_element stored int32_t ''Int32'' ''offsets'' 1 [[8], [16]])
          (array_element stored int32_t ''Int32'' ''connectivity'' 1
             [[0], [1], [2], [3], [4], [5], [6], [7], [8], [9], [10], [11], [12], [13], [14], [15]])
          (array_element stored (real_t 8) ''Float64'' ''coordinates'' 3
             [[1, 0, 0], [2, 0, 0], [2, 1, 0], [1, 1, 0], [1, 0, 1], [2, 0, 1], [2, 1, 1], [1, 1, 1],
              [0, 0, 0], [1, 0, 0], [1, 1, 0], [0, 1, 0], [0, 0, 1], [1, 0, 1], [1, 1, 1], [0, 1, 1]])
          (array_element stored int32_t ''Int32'' ''depth'' 1 [[2], [1]])
          (array_element stored int32_t ''Int32'' ''ijk'' 3 [[1, 0, 0], [0, 0, 0]])],
      (rev two_leaves, 1))"
proof -
  have h: "0 \<le> tree_dim stored (rev two_leaves, 1)" "tree_dim stored (rev two_leaves, 1) \<le> 3"
    "collect_leaves stored (rev two_leaves, 0) = (rev two_leaves, (rev two_leaves, 1))"
    "8 = nat (ipow 2 (tree_dim stored (rev two_leaves, 1)))"
    "(int (length (rev two_leaves)) + 1) * int 8 \<le> INT_MAX"
    by (simp_all add: stored_def ipow_def two_leaves_def INT_MAX_def)
  have d: "sizeof (double_t stored) = 8" "\<forall>v. length (object_bytes (double_t stored) v) = 8"
    by (simp_all add: stored_def real_t_def length_le_bytes)
  have corners: "map (corner_row stored (tree_base stored (rev two_leaves, 1))
        (unit_box (vector3 0 0 0)) leaf) [0 ..< 8] =
      map (\<lambda>v. [of_int (vec_x (ijk (pt leaf))) + of_int (vec_x v),
                 of_int (vec_y (ijk (pt leaf))) + of_int (vec_y v),
                 of_int (vec_z (ijk (pt leaf))) + of_int (vec_z v)]) corner_offsets" for leaf
    by (simp add: corner_row_def stored_def unit_box_def row_of_def plus_vec_def
        hadamard_product_def box_extents_def minus_vec_def corner_offsets_def Let_def upt_rec)
  from tree_arrays_same_leaf [OF h stored_succeeds d, of "''tree''" "unit_box (vector3 0 0 0)"
      Map.empty]
  show ?thesis
    unfolding corners
    by (simp add: two_leaves_def row_of_def upt_rec stored_def corner_offsets_def)
qed

text \<open>
  C7 (as the code has it). For a tree of dimension 3 with \<open>L\<close> leaves such that
  \<open>8 * (L + 1)\<close> fits an \<^verbatim>\<open>int\<close> (the running offset reaches this value), with doubles of
  eight bytes and a zlib that succeeds whenever the buffer has the size that
  \<^verbatim>\<open>compressBound\<close> gives, \<^const>\<open>write_tree\<close> writes the file that declares \<open>8 * L\<close>
  points and \<open>L\<close> cells, whose \<open>offsets\<close> array has the \<open>L\<close> entries \<open>(i + 1) * 8\<close> for
  \<open>i = 0, \<dots>, L - 1\<close>, which end at \<open>8 * L\<close>, whose \<open>connectivity\<close> array has the
  \<open>8 * L\<close> entries \<open>0, 1, \<dots>, 8 * L - 1\<close>, and whose \<open>coordinates\<close> array has
  \<open>8 * L\<close> rows, row \<open>k\<close> being corner \<open>k mod 8\<close> of leaf \<open>k div 8\<close>.
\<close>

theorem tree_cells_3d:
  assumes "tree_dim env tree' = 3" and "collect_leaves env tree = (leaves, tree')"
    and "8 * (int (length leaves) + 1) \<le> INT_MAX"
    and "\<forall>source. fst (compress2 env (compressBound env (length source)) source Z_BEST_SPEED)
           = Z_OK"
    and "sizeof (double_t env) = 8" and "\<forall>v. length (object_bytes (double_t env) v) = 8"
  shows "write_tree env path tree domain files =
     (Done,
      files(path @ ''.vtu'' \<mapsto>
        vtu_text (8 * int (length leaves)) (int (length leaves))
          (array_element env int8_t ''Int8'' ''types'' 1 (map (\<lambda>i. [12]) [0 ..< length leaves]))
          (array_element env int32_t ''Int32'' ''offsets'' 1
             (map (\<lambda>i. [(int i + 1) * 8]) [0 ..< length leaves]))
          (array_element env int32_t ''Int32'' ''connectivity'' 1
             (map (\<lambda>k. [int k]) [0 ..< 8 * length leaves]))
          (array_element env (double_t env) ''Float64'' ''coordinates'' 3
             (map (\<lambda>k. corner_row env (tree_base env tree') domain (leaves ! (k div 8)) (k mod 8))
                [0 ..< 8 * length leaves]))
          (array_element env int32_t ''Int32'' ''depth'' 1 (map (\<lambda>leaf. [depth (pt leaf)]) leaves))
          (array_element env int32_t ''Int32'' ''ijk'' 3
             (map (\<lambda>leaf. row_of (ijk (pt leaf))) leaves))),
      tree')"
proof -
  have c: "8 = nat (ipow 2 (tree_dim env tree'))"
    by (simp add: assms(1) ipow_def)
  have r: "(int (length leaves) + 1) * int 8 \<le> INT_MAX"
    using assms(3) by (simp add: algebra_simps)
  show ?thesis
    using write_tree_text [OF _ _ assms(2) c r assms(4-6), of path domain files]
    by (simp add: assms(1) mult.commute)
qed

theorem tree_cells_3d_witness:
  "write_tree stored ''tree'' (two_leaves, 0) (unit_box (vector3 0 0 0)) Map.empty =
     (Done,
      [''tree.vtu'' \<mapsto>
        vtu_text 16 2
          (array_element stored int8_t ''Int8'' ''types'' 1 [[12], [12]])
          (array_element stored int32_t ''Int32'' ''offsets'' 1 [[8], [16]])
          (array_element stored int32_t ''Int32'' ''connectivity'' 1
             [[0], [1], [2], [3], [4], [5], [6], [7], [8], [9], [10], [11], [12], [13], [14], [15]])
          (array_element stored (real_t 8) ''Float64'' ''coordinates'' 3
             [[0, 0, 0], [1, 0, 0], [1, 1, 0], [0, 1, 0], [0, 0, 1], [1, 0, 1], [1, 1, 1], [0, 1, 1],
              [1, 0, 0], [2, 0, 0], [2, 1, 0], [1, 1, 0], [1, 0, 1], [2, 0, 1], [2, 1, 1], [1, 1, 1]])
          (array_element stored int32_t ''Int32'' ''depth'' 1 [[1], [2]])
          (array_element stored int32_t ''Int32'' ''ijk'' 3 [[0, 0, 0], [1, 0, 0]])],
      (two_leaves, 1))"
proof -
  have h: "tree_dim stored (two_leaves, 1) = 3"
    "collect_leaves stored (two_leaves, 0) = (two_leaves, (two_leaves, 1))"
    "8 * (int (length two_leaves) + 1) \<le> INT_MAX"
    by (simp_all add: stored_def two_leaves_def INT_MAX_def)
  have d: "sizeof (double_t stored) = 8" "\<forall>v. length (object_bytes (double_t stored) v) = 8"
    by (simp_all add: stored_def real_t_def length_le_bytes)
  have n: "length two_leaves = 2"
    by (simp add: two_leaves_def)
  have corners: "map (\<lambda>k. corner_row stored (tree_base stored (two_leaves, 1))
        (unit_box (vector3 0 0 0)) (two_leaves ! (k div 8)) (k mod 8)) [0 ..< 16] =
      [[0, 0, 0], [1, 0, 0], [1, 1, 0], [0, 1, 0], [0, 0, 1], [1, 0, 1], [1, 1, 1], [0, 1, 1],
       [1, 0, 0], [2, 0, 0], [2, 1, 0], [1, 1, 0], [1, 0, 1], [2, 0, 1], [2, 1, 1], [1, 1, 1]]"
    by (simp add: corner_row_def stored_def unit_box_def row_of_def plus_vec_def
        hadamard_product_def box_extents_def minus_vec_def corner_offsets_def two_leaves_def
        Let_def upt_rec)
  from tree_cells_3d [OF h stored_succeeds d, of "''tree''" "unit_box (vector3 0 0 0)" Map.empty]
  show ?thesis
    unfolding n using corners
    by (simp add: two_leaves_def row_of_def upt_rec stored_def)
qed

text \<open>
  C7 (as the specification words it) fails for a tree with so many leaves that
  \<open>8 * L\<close> does not fit an \<^verbatim>\<open>int\<close>: for \<open>L = 2\<^sup>2\<^sup>8\<close> leaves of a tree of dimension 3 the
  number of points wraps around to \<open>-2\<^sup>3\<^sup>1\<close>, the connectivity array cannot be
  allocated, and no file with the three arrays is written.
\<close>

theorem tree_cells_3d_overflow_counterexample:
  "write_tree stored ''tree'' (crowd, 0) (unit_box (vector3 0 0 0)) Map.empty =
     (Undefined_behaviour, Map.empty, (crowd, 1))
   \<and> length crowd = 268435456 \<and> wrap (268435456 * 8) = - 2147483648"
proof -
  have n: "length crowd = 268435456"
    by (simp only: crowd_def length_replicate)
  have h: "collect_leaves stored (crowd, 0) = (crowd, (crowd, 1))"
    "tree_dim stored (crowd, 1) = 3"
    by (simp_all add: stored_def)
  have r: "int (length crowd) \<le> INT_MAX" "INT_MAX < int (length crowd) * 8"
    "int (length crowd) * 8 \<le> 4294967295"
    unfolding n by (simp_all add: INT_MAX_def)
  have "write_tree stored ''tree'' (crowd, 0) (unit_box (vector3 0 0 0)) Map.empty =
      (Undefined_behaviour, Map.empty, (crowd, 1))"
    using h r stored_succeeds by (rule write_tree_overflow)
  moreover have "wrap (268435456 * 8) = - 2147483648"
    by (simp add: wrap_def INT_MIN_def)
  ultimately show ?thesis
    using n by simp
qed

text \<open>
  C8 (as the code has it). For a block of degree \<open>p\<close> with cell grid \<open>(nx, ny, nz)\<close> such
  that \<open>p + 1\<close> and the products \<open>(p+1) * nx\<close>, \<open>(p+1) * ny\<close> and \<open>(p+1) * nz\<close> fit an
  \<^verbatim>\<open>int\<close>, the \<^verbatim>\<open>WholeExtent\<close> of the rectilinear grid element and the \<^verbatim>\<open>Extent\<close> of the
  piece are both \<^verbatim>\<open>0 (p+1)nx 0 (p+1)ny 0 (p+1)nz\<close>.
\<close>

theorem extents_whole_and_piece:
  assumes "fits_int (basis_p block + 1)"
    and "fits_int ((basis_p block + 1) * vec_x (extents (cell_grid block)))"
    and "fits_int ((basis_p block + 1) * vec_y (extents (cell_grid block)))"
    and "fits_int ((basis_p block + 1) * vec_z (extents (cell_grid block)))"
  shows \<open>write_vtr_rectilinear_start stream block =
     stream @ ''<RectilinearGrid WholeExtent="''
       @ extent_text (basis_p block) (vec_x (extents (cell_grid block)))
           (vec_y (extents (cell_grid block))) (vec_z (extents (cell_grid block)))
       @ ''">\<newline>''
   \<and> write_piece_start stream block =
     stream @ ''<Piece Extent="''
       @ extent_text (basis_p block) (vec_x (extents (cell_grid block)))
           (vec_y (extents (cell_grid block))) (vec_z (extents (cell_grid block)))
       @ ''">\<newline>''\<close>
  using assms
  by (simp add: write_vtr_rectilinear_start_def write_piece_start_def extent_text_def scale_def
      to_string_0 Let_def wrap_fits)

theorem extents_whole_and_piece_witness:
  \<open>write_vtr_rectilinear_start [] (block_of_degree 2) =
     ''<RectilinearGrid WholeExtent="0 6 0 3 0 3">\<newline>''
   \<and> write_piece_start [] (block_of_degree 2) = ''<Piece Extent="0 6 0 3 0 3">\<newline>''\<close>
proof -
  have "extent_text 2 2 1 1 = ''0 6 0 3 0 3''"
    by (simp add: extent_text_def to_string_def decimal.simps digit_chars_def)
  moreover have "fits_int (basis_p (block_of_degree 2) + 1)"
    "fits_int ((basis_p (block_of_degree 2) + 1) * vec_x (extents (cell_grid (block_of_degree 2))))"
    "fits_int ((basis_p (block_of_degree 2) + 1) * vec_y (extents (cell_grid (block_of_degree 2))))"
    "fits_int ((basis_p (block_of_degree 2) + 1) * vec_z (extents (cell_grid (block_of_degree 2))))"
    by (simp_all add: block_of_degree_def fits_int_def INT_MIN_def INT_MAX_def)
  ultimately show ?thesis
    using extents_whole_and_piece [of "block_of_degree 2" "[]"]
    by (simp add: block_of_degree_def)
qed

text \<open>
  C8 (as the specification words it) fails for a block whose scaled extent does not
  fit an \<^verbatim>\<open>int\<close>: for the degree 1 and \<open>2\<^sup>3\<^sup>0\<close> cells along the first axis the product
  \<open>2 * 2\<^sup>3\<^sup>0\<close> wraps around, and both elements give the extent \<open>-2147483648\<close> where the
  specification has \<open>2147483648\<close>.
\<close>

theorem extents_overflow_counterexample:
  \<open>write_vtr_rectilinear_start [] wide_block =
     ''<RectilinearGrid WholeExtent="0 -2147483648 0 2 0 2">\<newline>''
   \<and> write_piece_start [] wide_block = ''<Piece Extent="0 -2147483648 0 2 0 2">\<newline>''
   \<and> extent_text 1 1073741824 1 1 = ''0 2147483648 0 2 0 2''\<close>
  by (simp add: write_vtr_rectilinear_start_def write_piece_start_def extent_text_def scale_def
      wide_block_def block_of_degree_def wrap_def INT_MIN_def to_string_def decimal.simps
      digit_chars_def Let_def)

text \<open>
  C9. If zlib returns a status other than \<^verbatim>\<open>Z_OK\<close> for an array, \<^const>\<open>write_data\<close>
  throws and leaves the stream as it was: neither header nor payload is written. The
  writers that follow it in the same export do not run. A tree export in which the
  compression fails (of a tree whose number of leaves fits an \<^verbatim>\<open>int\<close>) throws the
  compression error; and a tree export that does not complete, for whatever reason,
  writes no file.
\<close>

theorem compression_failure_aborts:
  assumes "host = (if copy then sync_host dual else dual)"
    and "n = unat (word_of_nat (sizeof T) * word_of_nat (view_size (h_view host)) :: 64 word)"
    and "fst (compress2 env (compressBound env n) (take n (host_bytes env T host)) Z_BEST_SPEED)
           \<noteq> Z_OK"
  shows "write_data env T stream dual copy = (Runtime_error ''vtk - zlib error'', stream)
         \<and> in_sequence ((\<lambda>stream. write_data env T stream dual copy) # rest) stream
             = (Runtime_error ''vtk - zlib error'', stream)
         \<and> ((\<forall>capacity source. fst (compress2 env capacity source Z_BEST_SPEED) \<noteq> Z_OK)
              \<and> 0 \<le> tree_dim env (snd (collect_leaves env tree))
              \<and> tree_dim env (snd (collect_leaves env tree)) \<le> 3
              \<and> int (length (fst (collect_leaves env tree))) \<le> INT_MAX \<longrightarrow>
             write_tree env path tree domain files =
               (Runtime_error ''vtk - zlib error'', files, snd (collect_leaves env tree)))
         \<and> (fst (write_tree env path tree domain files) \<noteq> Done \<longrightarrow>
             fst (snd (write_tree env path tree domain files)) = files)"
proof -
  obtain ret compressed where
    c: "compress2 env (compressBound env n) (take n (host_bytes env T host)) Z_BEST_SPEED
          = (ret, compressed)"
    by fastforce
  with assms(3) have "ret \<noteq> Z_OK"
    by simp
  with c have data: "write_data env T stream dual copy = (Runtime_error ''vtk - zlib error'', stream)"
    by (simp add: write_data_unfold [OF assms(1,2)])
  then have rest: "in_sequence ((\<lambda>stream. write_data env T stream dual copy) # rest) stream
      = (Runtime_error ''vtk - zlib error'', stream)"
    by (intro in_sequence_failure) simp_all
  have "write_tree env path tree domain files =
      (Runtime_error ''vtk - zlib error'', files, snd (collect_leaves env tree))"
    if "\<forall>capacity source. fst (compress2 env capacity source Z_BEST_SPEED) \<noteq> Z_OK"
      and "0 \<le> tree_dim env (snd (collect_leaves env tree))"
      and "tree_dim env (snd (collect_leaves env tree)) \<le> 3"
      and "int (length (fst (collect_leaves env tree))) \<le> INT_MAX"
    using that(1) _ that(2-4) by (rule write_tree_failing) simp
  with data rest write_tree_failure_files [of env path tree domain files] show ?thesis
    by blast
qed

theorem compression_failure_aborts_witness:
  "write_data failing int32_t ''<a>'' small_view False = (Runtime_error ''vtk - zlib error'', ''<a>'')
   \<and> in_sequence [(\<lambda>stream. write_data failing int32_t stream small_view False), emit write_data_end]
         ''<a>'' = (Runtime_error ''vtk - zlib error'', ''<a>'')
   \<and> write_tree failing ''tree'' (two_leaves, 0) (unit_box (vector3 0 0 0)) Map.empty
       = (Runtime_error ''vtk - zlib error'', Map.empty, (two_leaves, 1))
   \<and> fst (snd (write_tree failing ''tree'' (two_leaves, 0) (unit_box (vector3 0 0 0)) Map.empty))
       = Map.empty"
proof -
  have d: "0 \<le> tree_dim failing (snd (collect_leaves failing (two_leaves, 0)))
      \<and> tree_dim failing (snd (collect_leaves failing (two_leaves, 0))) \<le> 3
      \<and> int (length (fst (collect_leaves failing (two_leaves, 0)))) \<le> INT_MAX"
    by (simp add: failing_def stored_def two_leaves_def INT_MAX_def)
  have s: "snd (collect_leaves failing (two_leaves, 0)) = (two_leaves, 1)"
    by (simp add: failing_def stored_def)
  from failing_fails have f: "fst (compress2 failing (compressBound failing n) source Z_BEST_SPEED) \<noteq> Z_OK"
    for n source
    by blast
  from compression_failure_aborts [where env = failing and T = int32_t and dual = small_view
      and copy = False and stream = "''<a>''" and rest = "[emit write_data_end]"
      and tree = "(two_leaves, 0)" and path = "''tree''" and domain = "unit_box (vector3 0 0 0)"
      and files = Map.empty, OF refl refl f]
    failing_fails d s
  show ?thesis
    by simp
qed

text \<open>
  C10. Each coordinate is computed in double precision by the offset formula and
  converted to float when it is stored. For a block of degree 0, 1 or 2 whose number of
  points fits an \<^verbatim>\<open>int\<close>, with floats of 4 bytes, \<^const>\<open>write_coordinate\<close> declares the
  array as \<^verbatim>\<open>Float32\<close> and the bytes it compresses are those of the converted values, 4
  for each point.
\<close>

theorem coordinates_stored_as_float32:
  assumes "basis_p block = 0 \<or> basis_p block = 1 \<or> basis_p block = 2"
    and "0 \<le> vec_nth (extents (cell_grid block)) axis"
    and "(basis_p block + 1) * vec_nth (extents (cell_grid block)) axis + 1 \<le> INT_MAX"
    and "num_pts = nat ((basis_p block + 1) * vec_nth (extents (cell_grid block)) axis + 1)"
    and "sizeof (float_t env) = 4" and "\<forall>v. length (object_bytes (float_t env) v) = 4"
    and "values = map (\<lambda>i. float_of_double env (coordinate_point env block axis (int i))) [0 ..< num_pts]"
    and "raw = concat (map (object_bytes (float_t env)) values)"
    and "length raw < 2 ^ 64"
    and "compress2 env (compressBound env (length raw)) raw Z_BEST_SPEED = (Z_OK, compressed)"
  shows \<open>write_coordinate env stream block axis =
           (Done, stream
              @ ''<DataArray type="Float32" Name="'' @ axis_name axis
              @ ''" NumberOfComponents="1" format="binary">\<newline>''
              @ base64_encode (concat (map u64_bytes
                  [1, word_of_nat (length raw), word_of_nat (length raw),
                   word_of_nat (length compressed)]))
              @ base64_encode compressed @ ''\<newline>''
              @ ''</DataArray>\<newline>'')
         \<and> length raw = 4 * num_pts\<close>
proof -
  define coord where "coord = (resize (float_t env) (length (map (\<lambda>v. [v]) values)) 1)
      \<lparr>h_view := map (\<lambda>v. [v]) values\<rparr>"
  have rows: "map (\<lambda>i. [float_of_double env (coordinate_point env block axis (int i))])
      [0 ..< nat ((basis_p block + 1) * vec_nth (extents (cell_grid block)) axis + 1)]
      = map (\<lambda>v. [v]) values"
    by (simp add: assms(4,7) comp_def)
  have closed: "write_coordinate env stream block axis =
      write_array env (float_t env) ''Float32'' (axis_name axis) 1 (map (\<lambda>v. [v]) values) stream"
    using write_coordinate_closed [OF assms(1,2,3), of env stream] by (simp only: rows)
  have repr: "\<forall>v. length (object_bytes (float_t env) v) = sizeof (float_t env)"
    using assms(5,6) by simp
  have bytes: "raw = host_bytes env (float_t env) (if False then sync_host coord else coord)"
    by (simp add: coord_def host_bytes_column assms(8))
  have "write_data env (float_t env) s coord False =
      (Done, s @ base64_encode (concat (map u64_bytes
                  [1, word_of_nat (length raw), word_of_nat (length raw),
                   word_of_nat (length compressed)]))
               @ base64_encode compressed @ ''\<newline>'')" for s
    using write_data_result [OF repr bytes assms(9), of s] assms(10) by simp
  then have "write_coordinate env stream block axis =
      (Done, write_data_end (write_data_start stream ''Float32'' (axis_name axis) 1
         @ base64_encode (concat (map u64_bytes
                  [1, word_of_nat (length raw), word_of_nat (length raw),
                   word_of_nat (length compressed)]))
               @ base64_encode compressed @ ''\<newline>''))"
    unfolding closed write_array_def coord_def [symmetric]
    by (simp add: and_then_emit and_then_def emit_def)
  moreover have "length raw = 4 * num_pts"
    using assms(6) by (simp add: assms(7,8) length_concat_fixed)
  ultimately show ?thesis
    by (simp add: write_data_end_def write_data_start_def to_string_def decimal.simps digit_chars_def)
qed

theorem coordinates_stored_as_float32_witness:
  \<open>write_coordinate stored [] (block_of_degree 2) Y =
     (Done, ''<DataArray type="Float32" Name="y" NumberOfComponents="1" format="binary">\<newline>''
        @ base64_encode (concat (map u64_bytes [1, 16, 16, 16]))
        @ base64_encode [0, 0, 0, 0,  28, 3, 0, 0,  228, 8, 0, 0,  0, 12, 0, 0]
        @ ''\<newline></DataArray>\<newline>'')
   \<and> map (float_of_double stored) [7 / 9, 20 / 9] = [199 / 256, 569 / 256]\<close>
proof -
  define raw :: "byte list" where "raw = [0, 0, 0, 0,  28, 3, 0, 0,  228, 8, 0, 0,  0, 12, 0, 0]"
  have vals: "map (\<lambda>i. float_of_double stored (coordinate_point stored (block_of_degree 2) Y (int i)))
      [0 ..< 4] = [0, 199 / 256, 569 / 256, 3]"
    by (simp add: stored_def coordinate_point_def block_of_degree_def unit_box_def offsetTable_def
        upt_rec)
  have bytes: "raw = concat (map (object_bytes (float_t stored)) [0, 199 / 256, 569 / 256, 3])"
    by (simp add: raw_def stored_def real_t_def le_bytes_def upt_rec)
  have h: "basis_p (block_of_degree 2) = 0 \<or> basis_p (block_of_degree 2) = 1
      \<or> basis_p (block_of_degree 2) = 2"
    "0 \<le> vec_nth (extents (cell_grid (block_of_degree 2))) Y"
    "(basis_p (block_of_degree 2) + 1) * vec_nth (extents (cell_grid (block_of_degree 2))) Y + 1
       \<le> INT_MAX"
    "4 = nat ((basis_p (block_of_degree 2) + 1)
        * vec_nth (extents (cell_grid (block_of_degree 2))) Y + 1)"
    "sizeof (float_t stored) = 4" "\<forall>v. length (object_bytes (float_t stored) v) = 4"
    by (simp_all add: block_of_degree_def stored_def real_t_def length_le_bytes INT_MAX_def)
  have small: "length raw < 2 ^ 64"
    by (simp add: raw_def)
  have z: "compress2 stored (compressBound stored (length raw)) raw Z_BEST_SPEED = (Z_OK, raw)"
    by (simp add: stored_def)
  from coordinates_stored_as_float32 [OF h vals [symmetric] bytes small z, of "[]"]
  show ?thesis
    by (simp add: raw_def stored_def)
qed

end
